theory Spec2Isabelle
  imports Complex_Main "HOL-Library.Word"
begin

unbundle bit_operations_syntax

section \<open>Python values used by the two scanner scripts\<close>

text \<open>
  The repository holds two scripts, \<^verbatim>\<open>scripts/ble_scan_manu.py\<close> (manufacturer data
  under company identifier 0xFFFF) and \<^verbatim>\<open>scripts/ble_scan_uuid128.py\<close> (service
  data keyed by UUID). Both define a function \<^verbatim>\<open>callback\<close>; the two are kept apart
  here as \<open>manu_callback\<close> and \<open>uuid128_callback\<close>. \<^verbatim>\<open>load_mac_list\<close> is the same
  text in both files and is embedded once.

  An element of a Python \<^verbatim>\<open>bytes\<close> object is an integer in 0..255: an 8-bit word.
  A Python \<^verbatim>\<open>str\<close> is a \<open>string\<close> whose characters stand for code points below
  256; text with other code points is outside the model.
\<close>

type_synonym byte = "8 word"
type_synonym bytes = "byte list"

datatype py_exn =
    FileNotFoundError
  | PermissionError
  | IsADirectoryError
  | StructError
  | TypeError

subsection \<open>str.strip, str.upper, str.lower\<close>

text \<open>
  \<^verbatim>\<open>str.strip()\<close> removes leading and trailing whitespace: tab, line feed, vertical
  tab, form feed, carriage return, the separators 0x1C..0x1F, space, and in the Latin-1
  range NEL (0x85) and the no-break space (0xA0).
\<close>

definition isspace :: "char \<Rightarrow> bool" where
  "isspace c = (of_char c \<in> {9, 10, 11, 12, 13, 28, 29, 30, 31, 32, 133, 160 :: nat})"

definition strip :: "string \<Rightarrow> string" where
  "strip s = rev (dropWhile isspace (rev (dropWhile isspace s)))"

text \<open>
  \<^verbatim>\<open>str.upper()\<close> and \<^verbatim>\<open>str.lower()\<close> are built-ins of Python, given by the
  case mappings of Unicode; they are not code of the two scripts. Every function below
  that calls one of them takes it as a parameter, named \<open>upper\<close> or \<open>lower\<close>, and
  every statement about such a function holds for any value of the parameter.

  To run the functions on concrete inputs the parameters are given the values
  \<open>ascii_upper\<close> and \<open>ascii_lower\<close>: on a string of ASCII characters, such as a
  device address or a canonical UUID, they are \<^verbatim>\<open>str.upper()\<close> and \<^verbatim>\<open>str.lower()\<close>
  (the 26 letters change case, every other ASCII character is kept). They stand for the
  built-ins on such strings only.
\<close>

definition ascii_upper_char :: "char \<Rightarrow> char" where
  "ascii_upper_char c =
     (let n = of_char c :: nat in if 97 \<le> n \<and> n \<le> 122 then char_of (n - 32) else c)"

definition ascii_lower_char :: "char \<Rightarrow> char" where
  "ascii_lower_char c =
     (let n = of_char c :: nat in if 65 \<le> n \<and> n \<le> 90 then char_of (n + 32) else c)"

definition ascii_upper :: "string \<Rightarrow> string" where
  "ascii_upper s = map ascii_upper_char s"

definition ascii_lower :: "string \<Rightarrow> string" where
  "ascii_lower s = map ascii_lower_char s"

subsection \<open>Format specifications of the f-strings\<close>

definition digit_char :: "nat \<Rightarrow> char" where
  "digit_char d = char_of (48 + d)"

fun str_nat :: "nat \<Rightarrow> string" where
  "str_nat n = (if n < 10 then [digit_char n] else str_nat (n div 10) @ [digit_char (n mod 10)])"

declare str_nat.simps [simp del]

text \<open>\<^verbatim>\<open>str(i)\<close> of an integer.\<close>

definition str_int :: "int \<Rightarrow> string" where
  "str_int i = (if i < 0 then CHR ''-'' # str_nat (nat (- i)) else str_nat (nat i))"

definition rjust :: "nat \<Rightarrow> char \<Rightarrow> string \<Rightarrow> string" where
  "rjust w c s = replicate (w - length s) c @ s"

text \<open>\<^verbatim>\<open>{rssi:>4}\<close>: the decimal text, right-aligned in a field of at least 4.\<close>

definition fmt_r4 :: "int \<Rightarrow> string" where
  "fmt_r4 i = rjust 4 CHR '' '' (str_int i)"

definition hex_char :: "nat \<Rightarrow> char" where
  "hex_char d = (if d < 10 then char_of (48 + d) else char_of (55 + d))"

fun hex_nat :: "nat \<Rightarrow> string" where
  "hex_nat n = (if n < 16 then [hex_char n] else hex_nat (n div 16) @ [hex_char (n mod 16)])"

declare hex_nat.simps [simp del]

text \<open>
  \<^verbatim>\<open>{sensor_type:02X}\<close>: uppercase hexadecimal, padded with zeros to at least two
  characters. The sensor type is an element of a \<^verbatim>\<open>bytes\<close> object, never negative.
\<close>

definition fmt_02X :: "nat \<Rightarrow> string" where
  "fmt_02X n = rjust 2 CHR ''0'' (hex_nat n)"

text \<open>
  \<^verbatim>\<open>t_centi / 100.0\<close> is a Python float and \<^verbatim>\<open>{temp_c:6.2f}\<close> rounds it to two
  decimals in a field of at least 6. The quotient is the double nearest to the exact
  hundredth, whose distance from it is far below half a hundredth for every 16-bit
  \<^verbatim>\<open>t_centi\<close>, so the printed text is the decimal expansion of the exact quotient.
  The model carries the exact quotient as a rational.
\<close>

definition fmt_6_2f :: "rat \<Rightarrow> string" where
  "fmt_6_2f x =
     (let c = round (x * 100); a = nat \<bar>c\<bar> in
      rjust 6 CHR '' ''
        ((if c < 0 then ''-'' else '''') @ str_nat (a div 100) @ ''.'' @
         [digit_char (a mod 100 div 10), digit_char (a mod 10)]))"

subsection \<open>struct.unpack("<h", ...)\<close>

text \<open>
  Two bytes, least significant first, read as a two's-complement 16-bit integer. Any
  other length raises \<^verbatim>\<open>struct.error\<close>; \<^verbatim>\<open>None\<close> raises \<^verbatim>\<open>TypeError\<close>.
\<close>

definition struct_unpack_h :: "bytes option \<Rightarrow> py_exn + int" where
  "struct_unpack_h value_bytes =
     (case value_bytes of
        None \<Rightarrow> Inl TypeError
      | Some [b0, b1] \<Rightarrow>
          (let u = uint b0 + 256 * uint b1 in Inr (if u < 32768 then u else u - 65536))
      | Some _ \<Rightarrow> Inl StructError)"

section \<open>The advertisement event\<close>

record ble_device =
  address :: string
  name :: "string option"

record advertisement_data =
  manufacturer_data :: "int \<rightharpoonup> bytes"
  service_data :: "(string \<times> bytes) list option"
  rssi :: int

text \<open>\<^verbatim>\<open>device.name or "Desconhecido"\<close>: the placeholder for \<^verbatim>\<open>None\<close> and for \<^verbatim>\<open>""\<close>.\<close>

definition nome_of :: "ble_device \<Rightarrow> string" where
  "nome_of device =
     (case name device of
        None \<Rightarrow> ''Desconhecido''
      | Some n \<Rightarrow> if n = [] then ''Desconhecido'' else n)"

definition degree_sign :: string where
  "degree_sign = [char_of (176 :: nat)]"

section \<open>ble_scan_manu.py\<close>

definition parse_sensor_type_and_value :: "advertisement_data \<Rightarrow> byte option \<times> bytes option" where
  "parse_sensor_type_and_value advertisement_data =
     (case manufacturer_data advertisement_data 0xFFFF of
        None \<Rightarrow> (None, None)
      | Some payload \<Rightarrow>
          if payload = [] \<or> length payload < 3 then (None, None)
          else (Some (payload ! 0), Some (take 2 (drop 1 payload))))"

definition manu_temp_line :: "ble_device \<Rightarrow> advertisement_data \<Rightarrow> rat \<Rightarrow> string" where
  "manu_temp_line device advertisement_data temp_c =
     address device @ ''  RSSI '' @ fmt_r4 (rssi advertisement_data) @ '' dBm  '' @
     ''Temp '' @ fmt_6_2f temp_c @ '' '' @ degree_sign @ ''C  Nome: '' @ nome_of device"

definition manu_unknown_line :: "ble_device \<Rightarrow> advertisement_data \<Rightarrow> byte \<Rightarrow> string" where
  "manu_unknown_line device advertisement_data sensor_type =
     address device @ ''  RSSI '' @ fmt_r4 (rssi advertisement_data) @ '' dBm  '' @
     ''Sensor desconhecido (tipo '' @ fmt_02X (unat sensor_type) @ '')  Nome: '' @ nome_of device"

text \<open>
  The result of a callback is the list of lines it printed and the exception it raised, if
  any. The truth value of \<^verbatim>\<open>mac_filter\<close> in \<^verbatim>\<open>if mac_filter and ...\<close> is false for
  \<^verbatim>\<open>None\<close> and for the empty set.
\<close>

definition manu_mac_rejected ::
  "(string \<Rightarrow> string) \<Rightarrow> string set option \<Rightarrow> ble_device \<Rightarrow> bool" where
  "manu_mac_rejected upper mac_filter device =
     (case mac_filter of
        None \<Rightarrow> False
      | Some macs \<Rightarrow> macs \<noteq> {} \<and> upper (address device) \<notin> macs)"

definition manu_callback ::
  "(string \<Rightarrow> string) \<Rightarrow> string set option \<Rightarrow> ble_device \<Rightarrow> advertisement_data \<Rightarrow>
   string list \<times> py_exn option" where
  "manu_callback upper mac_filter device advertisement_data =
     (if manu_mac_rejected upper mac_filter device
      then ([], None)
      else
        (case parse_sensor_type_and_value advertisement_data of
           (None, value_bytes) \<Rightarrow> ([], None)
         | (Some sensor_type, value_bytes) \<Rightarrow>
             if sensor_type = 1 then
               (case struct_unpack_h value_bytes of
                  Inl e \<Rightarrow> ([], Some e)
                | Inr t_centi \<Rightarrow>
                    ([manu_temp_line device advertisement_data (of_int t_centi / 100)], None))
             else if sensor_type \<noteq> 0 then
               ([manu_unknown_line device advertisement_data sensor_type], None)
             else ([], None)))"

section \<open>ble_scan_uuid128.py\<close>

text \<open>
  \<^verbatim>\<open>advertisement_data.service_data or {}\<close>, then one pair per item of the dictionary,
  in the dictionary's order, the UUID in lower case.
\<close>

definition get_service_data_payload ::
  "(string \<Rightarrow> string) \<Rightarrow> advertisement_data \<Rightarrow> (string \<times> bytes) list" where
  "get_service_data_payload lower advertisement_data =
     (let sd = (case service_data advertisement_data of None \<Rightarrow> [] | Some d \<Rightarrow> d)
      in map (\<lambda>(uuid_str, payload). (lower uuid_str, payload)) sd)"

definition parse_service_data :: "bytes option \<Rightarrow> byte option \<times> bytes option" where
  "parse_service_data payload =
     (case payload of
        None \<Rightarrow> (None, None)
      | Some p \<Rightarrow>
          if p = [] \<or> length p < 1 then (None, None)
          else (Some (p ! 0), if 3 \<le> length p then Some (take 2 (drop 1 p)) else None))"

definition uuid128_temp_line ::
  "ble_device \<Rightarrow> advertisement_data \<Rightarrow> rat \<Rightarrow> string \<Rightarrow> string" where
  "uuid128_temp_line device advertisement_data temp_c uuid_str =
     address device @ ''  RSSI '' @ fmt_r4 (rssi advertisement_data) @ '' dBm  '' @
     ''Temp '' @ fmt_6_2f temp_c @ '' '' @ degree_sign @ ''C  UUID: '' @ uuid_str @
     ''  Nome: '' @ nome_of device"

definition uuid128_unknown_line ::
  "ble_device \<Rightarrow> advertisement_data \<Rightarrow> byte \<Rightarrow> string \<Rightarrow> string" where
  "uuid128_unknown_line device advertisement_data sensor_type uuid_str =
     address device @ ''  RSSI '' @ fmt_r4 (rssi advertisement_data) @ '' dBm  '' @
     ''Sensor desconhecido (tipo '' @ fmt_02X (unat sensor_type) @ '')  UUID: '' @ uuid_str @
     ''  Nome: '' @ nome_of device"

text \<open>
  The two tests of \<^verbatim>\<open>callback\<close>: \<^verbatim>\<open>mac_filter is not None and
  device.address.upper() not in mac_filter\<close>, and \<^verbatim>\<open>uuid128_filter is not None and
  uuid_str not in uuid128_filter\<close>.
\<close>

definition uuid128_mac_rejected ::
  "(string \<Rightarrow> string) \<Rightarrow> string set option \<Rightarrow> ble_device \<Rightarrow> bool" where
  "uuid128_mac_rejected upper mac_filter device =
     (case mac_filter of None \<Rightarrow> False | Some macs \<Rightarrow> upper (address device) \<notin> macs)"

definition uuid128_uuid_rejected :: "string set option \<Rightarrow> string \<Rightarrow> bool" where
  "uuid128_uuid_rejected uuid128_filter uuid_str =
     (case uuid128_filter of None \<Rightarrow> False | Some uuids \<Rightarrow> uuid_str \<notin> uuids)"

text \<open>
  The body of the \<^verbatim>\<open>for\<close> loop of \<^verbatim>\<open>callback\<close>, for one pair: the lines it prints
  and the exception it raises, if any. \<^verbatim>\<open>continue\<close> is the empty result.
\<close>

definition uuid128_body ::
  "string set option \<Rightarrow> ble_device \<Rightarrow> advertisement_data \<Rightarrow> string \<times> bytes \<Rightarrow>
   string list \<times> py_exn option" where
  "uuid128_body uuid128_filter device advertisement_data pair =
     (case pair of (uuid_str, payload) \<Rightarrow>
        if uuid128_uuid_rejected uuid128_filter uuid_str
        then ([], None)
        else
          (case parse_service_data (Some payload) of
             (None, value_bytes) \<Rightarrow> ([], None)
           | (Some sensor_type, value_bytes) \<Rightarrow>
               if sensor_type = 1 \<and> value_bytes \<noteq> None then
                 (case struct_unpack_h value_bytes of
                    Inl e \<Rightarrow> ([], Some e)
                  | Inr t_centi \<Rightarrow>
                      ([uuid128_temp_line device advertisement_data (of_int t_centi / 100)
                          uuid_str], None))
               else if sensor_type \<noteq> 0 then
                 ([uuid128_unknown_line device advertisement_data sensor_type uuid_str], None)
               else ([], None)))"

text \<open>The loop: an exception ends it; the lines printed before it stay printed.\<close>

fun uuid128_loop ::
  "string set option \<Rightarrow> ble_device \<Rightarrow> advertisement_data \<Rightarrow> (string \<times> bytes) list \<Rightarrow>
   string list \<times> py_exn option" where
  "uuid128_loop uuid128_filter device advertisement_data [] = ([], None)"
| "uuid128_loop uuid128_filter device advertisement_data (pair # pairs) =
     (case uuid128_body uuid128_filter device advertisement_data pair of
        (out, Some e) \<Rightarrow> (out, Some e)
      | (out, None) \<Rightarrow>
          (case uuid128_loop uuid128_filter device advertisement_data pairs of
             (out', r) \<Rightarrow> (out @ out', r)))"

definition uuid128_callback ::
  "(string \<Rightarrow> string) \<Rightarrow> (string \<Rightarrow> string) \<Rightarrow> string set option \<Rightarrow> string set option \<Rightarrow>
   ble_device \<Rightarrow> advertisement_data \<Rightarrow> string list \<times> py_exn option" where
  "uuid128_callback upper lower mac_filter uuid128_filter device advertisement_data =
     (if uuid128_mac_rejected upper mac_filter device
      then ([], None)
      else uuid128_loop uuid128_filter device advertisement_data
             (get_service_data_payload lower advertisement_data))"

section \<open>The allow-list loaders\<close>

text \<open>
  \<^verbatim>\<open>open(path, "r")\<close> either raises or gives the file, whose iteration yields its
  lines (each with its line break). The file system is a function from paths to that
  outcome. The two messages of a loader are
  \<^verbatim>\<open>Lista de ... carregada (n entradas).\<close>, with the size of the set, and
  \<^verbatim>\<open>Arquivo 'path' ... sem filtro de ....\<close>, the warning for a file that was not found.
\<close>

type_synonym filesystem = "string \<Rightarrow> py_exn + string list"

datatype notice = Loaded nat | Warning_not_found string

definition load_mac_list ::
  "(string \<Rightarrow> string) \<Rightarrow> filesystem \<Rightarrow> string \<Rightarrow>
   py_exn + (string set option \<times> notice list)" where
  "load_mac_list upper fs path =
     (case fs path of
        Inr f \<Rightarrow>
          (let macs = set (map (\<lambda>line. upper (strip line)) (filter (\<lambda>line. strip line \<noteq> []) f))
           in Inr (Some macs, [Loaded (card macs)]))
      | Inl FileNotFoundError \<Rightarrow> Inr (None, [Warning_not_found path])
      | Inl e \<Rightarrow> Inl e)"

definition load_uuid128_list ::
  "(string \<Rightarrow> string) \<Rightarrow> filesystem \<Rightarrow> string \<Rightarrow>
   py_exn + (string set option \<times> notice list)" where
  "load_uuid128_list lower fs path =
     (case fs path of
        Inr f \<Rightarrow>
          (let uuids = set (map (\<lambda>line. lower (strip line)) (filter (\<lambda>line. strip line \<noteq> []) f))
           in Inr (Some uuids, [Loaded (card uuids)]))
      | Inl FileNotFoundError \<Rightarrow> Inr (None, [Warning_not_found path])
      | Inl e \<Rightarrow> Inl e)"

text \<open>
  The start of both scripts: \<^verbatim>\<open>if args.macs: mac_filter = load_mac_list(args.macs)\<close>.
  The option is \<^verbatim>\<open>None\<close> when it was not given and the filter then stays \<^verbatim>\<open>None\<close>,
  as it does for an empty argument.
\<close>

definition startup_filter ::
  "(filesystem \<Rightarrow> string \<Rightarrow> py_exn + (string set option \<times> notice list)) \<Rightarrow>
   filesystem \<Rightarrow> string option \<Rightarrow> py_exn + string set option" where
  "startup_filter load fs arg =
     (case arg of
        None \<Rightarrow> Inr None
      | Some path \<Rightarrow>
          if path = [] then Inr None
          else (case load fs path of Inl e \<Rightarrow> Inl e | Inr (flt, msgs) \<Rightarrow> Inr flt))"

section \<open>Notions of the specification\<close>

text \<open>
  The signed little-endian 16-bit integer formed from two bytes, the first the less
  significant: the two's-complement reading of the 16-bit word that has them as halves.
\<close>

definition s16_le :: "byte \<Rightarrow> byte \<Rightarrow> int" where
  "s16_le lo hi = sint (word_cat hi lo :: 16 word)"

text \<open>Two-digit uppercase hexadecimal of a number below 256.\<close>

definition two_digit_upper_hex :: "nat \<Rightarrow> string" where
  "two_digit_upper_hex n = [''0123456789ABCDEF'' ! (n div 16), ''0123456789ABCDEF'' ! (n mod 16)]"

text \<open>A blank line: nothing but whitespace (the line break included).\<close>

definition blank :: "string \<Rightarrow> bool" where
  "blank l = list_all isspace l"

text \<open>
  The number that a decimal text denotes: leading spaces, an optional minus sign, the
  digits of the integer part, a point, the digits of the fraction.
\<close>

definition digits_value :: "string \<Rightarrow> nat" where
  "digits_value s = foldl (\<lambda>a c. 10 * a + (of_char c - 48)) 0 s"

definition decimal_text_value :: "string \<Rightarrow> rat" where
  "decimal_text_value s =
     (let t = dropWhile (\<lambda>c. c = CHR '' '') s;
          negative = (take 1 t = ''-'');
          u = (if negative then drop 1 t else t);
          int_part = takeWhile (\<lambda>c. c \<noteq> CHR ''.'') u;
          frac_part = drop 1 (dropWhile (\<lambda>c. c \<noteq> CHR ''.'') u);
          v = of_nat (digits_value int_part) +
              of_nat (digits_value frac_part) / 10 ^ length frac_part
      in if negative then - v else v)"

section \<open>Auxiliary facts\<close>

subsection \<open>Characters and words\<close>

lemma char_of_nat:
  "char_of (n::nat) = Char (odd n) (odd (n div 2)) (odd (n div 4)) (odd (n div 8))
     (odd (n div 16)) (odd (n div 32)) (odd (n div 64)) (odd (n div 128))"
  by (simp add: char_of_def bit_iff_odd_drop_bit drop_bit_eq_div)

lemma replicate_numeral: "replicate (numeral k) x = x # replicate (pred_numeral k) x"
  by (simp add: numeral_eq_Suc)

text \<open>The recursive equations, for evaluation on literals only.\<close>

lemma str_nat_numeral:
  "str_nat (numeral k) =
     (if (numeral k :: nat) < 10 then [digit_char (numeral k)]
      else str_nat (numeral k div 10) @ [digit_char (numeral k mod 10)])"
  by (rule str_nat.simps)

lemma str_nat_0: "str_nat 0 = [digit_char 0]"
  by (subst str_nat.simps) simp

lemma str_nat_1: "str_nat (Suc 0) = [digit_char (Suc 0)]"
  by (subst str_nat.simps) simp

lemma hex_nat_numeral:
  "hex_nat (numeral k) =
     (if (numeral k :: nat) < 16 then [hex_char (numeral k)]
      else hex_nat (numeral k div 16) @ [hex_char (numeral k mod 16)])"
  by (rule hex_nat.simps)

lemma hex_nat_0: "hex_nat 0 = [hex_char 0]"
  by (subst hex_nat.simps) simp

lemma hex_nat_1: "hex_nat (Suc 0) = [hex_char (Suc 0)]"
  by (subst hex_nat.simps) simp

lemmas render_simps =
  fmt_6_2f_def fmt_r4_def fmt_02X_def rjust_def str_int_def
  str_nat_numeral str_nat_0 str_nat_1 hex_nat_numeral hex_nat_0 hex_nat_1
  digit_char_def hex_char_def nome_of_def degree_sign_def char_of_nat replicate_numeral

lemma uint_word_cat_bytes:
  "uint (word_cat (b1 :: byte) (b0 :: byte) :: 16 word) = uint b0 + 256 * uint b1"
proof -
  have "uint b0 < 256" "uint b1 < 256" "0 \<le> uint b0" "0 \<le> uint b1"
    using uint_lt2p [of b0] uint_lt2p [of b1] by simp_all
  then have "0 \<le> uint b0 + 256 * uint b1 \<and> uint b0 + 256 * uint b1 < 65536" by simp
  then have "take_bit 16 (uint b0 + 256 * uint b1) = uint b0 + 256 * uint b1"
    by (simp add: take_bit_int_eq_self)
  moreover have "concat_bit 8 (uint b0) (uint b1) = uint b0 + 256 * uint b1"
    by (simp add: concat_bit_eq push_bit_eq_mult take_bit_int_eq_self \<open>uint b0 < 256\<close>)
  ultimately show ?thesis
    unfolding word_cat_eq' uint_word_of_int_eq by simp
qed

lemma sint_word_cat_bytes:
  "sint (word_cat (b1 :: byte) (b0 :: byte) :: 16 word) =
     (let u = uint b0 + 256 * uint b1 in if u < 32768 then u else u - 65536)"
proof -
  define u where "u = uint b0 + 256 * uint b1"
  have "uint b0 < 256" "uint b1 < 256" "0 \<le> uint b0" "0 \<le> uint b1"
    using uint_lt2p [of b0] uint_lt2p [of b1] by simp_all
  then have bounds: "0 \<le> u" "u < 65536" by (simp_all add: u_def)
  have "sint (word_cat b1 b0 :: 16 word) = signed_take_bit 15 u"
    by (simp add: sint_uint uint_word_cat_bytes u_def)
  also have "\<dots> = (u + 32768) mod 65536 - 32768"
    by (simp add: signed_take_bit_eq_take_bit_shift take_bit_eq_mod)
  also have "\<dots> = (if u < 32768 then u else u - 65536)"
  proof (cases "u < 32768")
    case True
    then show ?thesis using bounds by simp
  next
    case False
    have "(u + 32768) mod 65536 = ((u - 32768) + 65536) mod 65536"
      by (rule arg_cong [where f = "\<lambda>x. x mod 65536"]) simp
    also have "\<dots> = (u - 32768) mod 65536"
      by (simp only: mod_add_self2)
    also have "\<dots> = u - 32768"
      using bounds False by (simp add: mod_pos_pos_trivial)
    finally show ?thesis using False by simp
  qed
  finally show ?thesis by (simp add: u_def Let_def)
qed

lemma struct_unpack_h_two:
  "struct_unpack_h (Some [b0, b1]) = Inr (sint (word_cat b1 b0 :: 16 word))"
  by (simp add: struct_unpack_h_def sint_word_cat_bytes Let_def)

subsection \<open>The decoders on the shapes of a payload\<close>

lemma parse_manu_absent:
  "manufacturer_data adv 0xFFFF = None \<Longrightarrow> parse_sensor_type_and_value adv = (None, None)"
  by (simp add: parse_sensor_type_and_value_def)

lemma parse_manu_short:
  "manufacturer_data adv 0xFFFF = Some p \<Longrightarrow> length p < 3 \<Longrightarrow>
   parse_sensor_type_and_value adv = (None, None)"
  by (simp add: parse_sensor_type_and_value_def)

lemma parse_manu_three:
  "manufacturer_data adv 0xFFFF = Some (t # b1 # b2 # rest) \<Longrightarrow>
   parse_sensor_type_and_value adv = (Some t, Some [b1, b2])"
  by (simp add: parse_sensor_type_and_value_def)

lemma parse_sd_three:
  "parse_service_data (Some (t # b1 # b2 # rest)) = (Some t, Some [b1, b2])"
  by (simp add: parse_service_data_def)



lemma parse_sd_empty: "parse_service_data (Some []) = (None, None)"
  by (simp add: parse_service_data_def)

lemma parse_sd_cons: "\<exists>v. parse_service_data (Some (t # rest)) = (Some t, v)"
  by (simp add: parse_service_data_def)

lemma length_three_shape:
  "3 \<le> length (p :: 'a list) \<Longrightarrow> \<exists>t b1 b2 rest. p = t # b1 # b2 # rest"
  by (cases p; cases "tl p"; cases "tl (tl p)") auto

subsection \<open>The callbacks raise nothing\<close>

lemma manu_callback_no_exn: "snd (manu_callback upper mf dev adv) = None"
proof (cases "manufacturer_data adv 0xFFFF")
  case None
  then show ?thesis by (simp add: manu_callback_def parse_manu_absent)
next
  case (Some p)
  show ?thesis
  proof (cases "length p < 3")
    case True
    with Some show ?thesis by (simp add: manu_callback_def parse_manu_short)
  next
    case False
    then obtain t b1 b2 rest where "p = t # b1 # b2 # rest"
      using length_three_shape [of p] by auto
    with Some show ?thesis
      by (simp add: manu_callback_def parse_manu_three struct_unpack_h_two)
  qed
qed

lemma uuid128_body_no_exn: "snd (uuid128_body uf dev adv pair) = None"
proof (cases pair)
  case (Pair u p)
  show ?thesis
  proof (cases "3 \<le> length p")
    case True
    then obtain t b1 b2 rest where "p = t # b1 # b2 # rest"
      using length_three_shape [of p] by auto
    with Pair show ?thesis
      by (simp add: uuid128_body_def parse_sd_three struct_unpack_h_two)
  next
    case False
    with Pair show ?thesis
      by (simp add: uuid128_body_def parse_service_data_def)
  qed
qed

lemma uuid128_loop_concat:
  "uuid128_loop uf dev adv pairs =
     (concat (map (\<lambda>pair. fst (uuid128_body uf dev adv pair)) pairs), None)"
proof (induction pairs)
  case Nil
  show ?case by simp
next
  case (Cons pair pairs)
  obtain out where "uuid128_body uf dev adv pair = (out, None)"
    using uuid128_body_no_exn [of uf dev adv pair] by (cases "uuid128_body uf dev adv pair") auto
  with Cons show ?case by simp
qed

lemma uuid128_callback_concat:
  "uuid128_callback upper lower mf uf dev adv =
     (if uuid128_mac_rejected upper mf dev then []
      else concat (map (\<lambda>pair. fst (uuid128_body uf dev adv pair))
             (get_service_data_payload lower adv)), None)"
  by (simp add: uuid128_callback_def uuid128_loop_concat)

lemma uuid128_body_rssi:
  assumes "rssi adv = rssi adv'"
  shows "uuid128_body uf dev adv pair = uuid128_body uf dev adv' pair"
proof -
  have t: "uuid128_temp_line dev adv = uuid128_temp_line dev adv'"
    using assms by (simp add: fun_eq_iff uuid128_temp_line_def)
  have u: "uuid128_unknown_line dev adv = uuid128_unknown_line dev adv'"
    using assms by (simp add: fun_eq_iff uuid128_unknown_line_def)
  show ?thesis by (simp only: uuid128_body_def t u)
qed

subsection \<open>Formatting\<close>

lemma hex_char_table: "\<forall>d\<in>{0..<16::nat}. hex_char d = ''0123456789ABCDEF'' ! d"
  by code_simp

lemma fmt_02X_byte:
  assumes "n < 256"
  shows "fmt_02X n = two_digit_upper_hex n"
proof -
  have d: "hex_char (n div 16) = ''0123456789ABCDEF'' ! (n div 16)"
    using assms hex_char_table by simp
  have m: "hex_char (n mod 16) = ''0123456789ABCDEF'' ! (n mod 16)"
    using hex_char_table by simp
  have "fmt_02X n = [hex_char (n div 16), hex_char (n mod 16)]"
  proof (cases "n < 16")
    case True
    then have "hex_nat n = [hex_char n]" by (subst hex_nat.simps) simp
    moreover have "hex_char 0 = CHR ''0''" by (simp add: hex_char_def char_of_nat)
    ultimately show ?thesis using True by (simp add: fmt_02X_def rjust_def)
  next
    case False
    then have "n div 16 < 16" using assms by simp
    then have "hex_nat (n div 16) = [hex_char (n div 16)]" by (subst hex_nat.simps) simp
    then have "hex_nat n = [hex_char (n div 16), hex_char (n mod 16)]"
      using False by (subst hex_nat.simps) simp
    then show ?thesis by (simp add: fmt_02X_def rjust_def)
  qed
  then show ?thesis by (simp add: two_digit_upper_hex_def d m)
qed

lemma unat_byte_less: "unat (t :: byte) < 256"
  using unsigned_less [of t, where 'a = nat] by simp

lemma round_hundredths: "round (rat_of_int k / 100 * 100) = k"
  by simp

subsection \<open>The text of a temperature denotes the temperature\<close>

lemma of_char_digit_char: "d < 10 \<Longrightarrow> of_char (digit_char d) = 48 + d"
  by (simp add: digit_char_def)

lemma digit_char_plain:
  assumes "d < 10"
  shows "digit_char d \<noteq> CHR '' ''" "digit_char d \<noteq> CHR ''-''" "digit_char d \<noteq> CHR ''.''"
proof -
  have n: "of_char (digit_char d) = 48 + d"
    using assms by (rule of_char_digit_char)
  have "of_char (digit_char d) \<noteq> (of_char CHR '' '' :: nat)"
    "of_char (digit_char d) \<noteq> (of_char CHR ''-'' :: nat)"
    "of_char (digit_char d) \<noteq> (of_char CHR ''.'' :: nat)"
    unfolding n by simp_all
  then show "digit_char d \<noteq> CHR '' ''" "digit_char d \<noteq> CHR ''-''" "digit_char d \<noteq> CHR ''.''"
    by auto
qed

lemma str_nat_digits: "c \<in> set (str_nat n) \<Longrightarrow> \<exists>d<10. c = digit_char d"
proof (induction n rule: str_nat.induct)
  case (1 n)
  show ?case
  proof (cases "n < 10")
    case True
    with "1.prems" show ?thesis
      by (subst (asm) str_nat.simps) auto
  next
    case False
    have "c \<in> set (str_nat (n div 10)) \<or> c = digit_char (n mod 10)"
      using "1.prems" False by (subst (asm) str_nat.simps) auto
    then show ?thesis
    proof
      assume "c \<in> set (str_nat (n div 10))"
      then show ?thesis using "1.IH" False by simp
    next
      assume "c = digit_char (n mod 10)"
      moreover have "n mod 10 < 10" by simp
      ultimately show ?thesis by blast
    qed
  qed
qed

lemma str_nat_nonempty: "str_nat n \<noteq> []"
  by (subst str_nat.simps) simp

lemma digits_value_snoc:
  "digits_value (s @ [c]) = 10 * digits_value s + (of_char c - 48)"
  by (simp add: digits_value_def)

lemma digits_value_str_nat: "digits_value (str_nat n) = n"
proof (induction n rule: str_nat.induct)
  case (1 n)
  show ?case
  proof (cases "n < 10")
    case True
    then have "str_nat n = [digit_char n]"
      by (subst str_nat.simps) simp
    then show ?thesis
      using True by (simp add: digits_value_def of_char_digit_char)
  next
    case False
    then have s: "str_nat n = str_nat (n div 10) @ [digit_char (n mod 10)]"
      by (subst str_nat.simps) simp
    have "digits_value (str_nat (n div 10)) = n div 10"
      using "1.IH" False by simp
    then show ?thesis
      unfolding s digits_value_snoc by (simp add: of_char_digit_char)
  qed
qed

lemma str_nat_plain:
  assumes "c \<in> set (str_nat n)"
  shows "c \<noteq> CHR '' ''" and "c \<noteq> CHR ''-''" and "c \<noteq> CHR ''.''"
proof -
  obtain d where d: "d < 10" "c = digit_char d"
    using str_nat_digits [OF assms] by blast
  show "c \<noteq> CHR '' ''" "c \<noteq> CHR ''-''" "c \<noteq> CHR ''.''"
    unfolding d(2) by (rule digit_char_plain [OF d(1)])+
qed

lemma decimal_text_value_plain:
  assumes "dropWhile (\<lambda>c. c = CHR '' '') s = u" and "take 1 u \<noteq> ''-''"
    and "takeWhile (\<lambda>c. c \<noteq> CHR ''.'') u = ip"
    and "drop 1 (dropWhile (\<lambda>c. c \<noteq> CHR ''.'') u) = fp"
  shows "decimal_text_value s =
    of_nat (digits_value ip) + of_nat (digits_value fp) / 10 ^ length fp"
  by (simp only: decimal_text_value_def Let_def assms if_False)

lemma decimal_text_value_minus:
  assumes "dropWhile (\<lambda>c. c = CHR '' '') s = t" and "take 1 t = ''-''" and "drop 1 t = u"
    and "takeWhile (\<lambda>c. c \<noteq> CHR ''.'') u = ip"
    and "drop 1 (dropWhile (\<lambda>c. c \<noteq> CHR ''.'') u) = fp"
  shows "decimal_text_value s =
    - (of_nat (digits_value ip) + of_nat (digits_value fp) / 10 ^ length fp)"
  by (simp only: decimal_text_value_def Let_def assms if_True simp_thms)

lemma number_text_parts:
  fixes q d1 d2 :: nat
  assumes "d1 < 10" and "d2 < 10"
  defines "u \<equiv> str_nat q @ ''.'' @ [digit_char d1, digit_char d2]"
  shows "takeWhile (\<lambda>c. c \<noteq> CHR ''.'') u = str_nat q"
    and "drop 1 (dropWhile (\<lambda>c. c \<noteq> CHR ''.'') u) = [digit_char d1, digit_char d2]"
    and "digits_value [digit_char d1, digit_char d2] = 10 * d1 + d2"
    and "take 1 u \<noteq> ''-''"
    and "dropWhile (\<lambda>c. c = CHR '' '') (replicate n CHR '' '' @ u) = u"
    and "dropWhile (\<lambda>c. c = CHR '' '') (replicate n CHR '' '' @ CHR ''-'' # u) = CHR ''-'' # u"
proof -
  have all: "\<forall>x\<in>set (str_nat q). x \<noteq> CHR ''.''"
    using str_nat_plain(3) by blast
  obtain c cs where q: "str_nat q = c # cs"
    using str_nat_nonempty [of q] by (cases "str_nat q") auto
  have "c \<in> set (str_nat q)"
    by (simp add: q)
  then have c: "c \<noteq> CHR '' ''" "c \<noteq> CHR ''-''"
    by (rule str_nat_plain)+
  show "takeWhile (\<lambda>c. c \<noteq> CHR ''.'') u = str_nat q"
    using all by (simp add: u_def takeWhile_append)
  show "drop 1 (dropWhile (\<lambda>c. c \<noteq> CHR ''.'') u) = [digit_char d1, digit_char d2]"
    using all by (simp add: u_def dropWhile_append)
  show "digits_value [digit_char d1, digit_char d2] = 10 * d1 + d2"
    using assms(1,2) by (simp add: digits_value_def of_char_digit_char)
  show "take 1 u \<noteq> ''-''"
    using c by (simp add: u_def q)
  show "dropWhile (\<lambda>c. c = CHR '' '') (replicate n CHR '' '' @ u) = u"
    using c by (simp add: u_def q dropWhile_append)
  show "dropWhile (\<lambda>c. c = CHR '' '') (replicate n CHR '' '' @ CHR ''-'' # u) = CHR ''-'' # u"
    by (simp add: dropWhile_append)
qed

lemma fmt_6_2f_denotes: "decimal_text_value (fmt_6_2f (of_int k / 100)) = of_int k / 100"
proof -
  define a where "a = nat \<bar>k\<bar>"
  define u where
    "u = str_nat (a div 100) @ ''.'' @ [digit_char (a mod 100 div 10), digit_char (a mod 10)]"
  have d: "a mod 100 div 10 < 10" "a mod 10 < 10"
    by simp_all
  note parts = number_text_parts [OF d]
  have "a mod 100 mod 10 = a mod 10"
    by (simp add: mod_mod_cancel)
  moreover have "10 * (a mod 100 div 10) + a mod 100 mod 10 = a mod 100"
    by (rule mult_div_mod_eq)
  ultimately have "10 * (a mod 100 div 10) + a mod 10 = a mod 100"
    by simp
  then have "100 * (a div 100) + (10 * (a mod 100 div 10) + a mod 10) = a"
    by simp
  then have "(of_nat (100 * (a div 100) + (10 * (a mod 100 div 10) + a mod 10)) :: rat) = of_nat a"
    by (rule arg_cong)
  then have split: "(of_nat (a div 100) :: rat) + of_nat (10 * (a mod 100 div 10) + a mod 10) / 100 =
      of_nat a / 100"
    by (simp add: field_simps)
  show ?thesis
  proof (cases "k < 0")
    case True
    have f: "fmt_6_2f (of_int k / 100) = replicate (6 - length (CHR ''-'' # u)) CHR '' '' @ CHR ''-'' # u"
      unfolding fmt_6_2f_def round_hundredths Let_def rjust_def a_def [symmetric] u_def
      using True by simp
    have tk: "take 1 (CHR ''-'' # u) = ''-''" "drop 1 (CHR ''-'' # u) = u"
      by simp_all
    have "decimal_text_value (fmt_6_2f (of_int k / 100)) =
        - (of_nat (digits_value (str_nat (a div 100))) +
           of_nat (digits_value [digit_char (a mod 100 div 10), digit_char (a mod 10)]) /
           10 ^ length [digit_char (a mod 100 div 10), digit_char (a mod 10)])"
      unfolding f
      by (rule decimal_text_value_minus [where t = "CHR ''-'' # u" and u = u, OF _ tk])
        (simp_all only: u_def parts)
    also have "\<dots> = - (of_nat (a div 100) + of_nat (10 * (a mod 100 div 10) + a mod 10) / 100)"
      by (simp only: digits_value_str_nat parts(3)) simp
    also have "\<dots> = - (of_nat a / 100)"
      by (simp only: split)
    also have "\<dots> = of_int k / 100"
      using True by (simp add: a_def)
    finally show ?thesis .
  next
    case False
    have f: "fmt_6_2f (of_int k / 100) = replicate (6 - length u) CHR '' '' @ u"
      unfolding fmt_6_2f_def round_hundredths Let_def rjust_def a_def [symmetric] u_def
      using False by simp
    have "decimal_text_value (fmt_6_2f (of_int k / 100)) =
        of_nat (digits_value (str_nat (a div 100))) +
        of_nat (digits_value [digit_char (a mod 100 div 10), digit_char (a mod 10)]) /
        10 ^ length [digit_char (a mod 100 div 10), digit_char (a mod 10)]"
      unfolding f
      by (rule decimal_text_value_plain [where u = u]) (simp_all only: u_def parts simp_thms)
    also have "\<dots> = of_nat (a div 100) + of_nat (10 * (a mod 100 div 10) + a mod 10) / 100"
      by (simp only: digits_value_str_nat parts(3)) simp
    also have "\<dots> = of_nat a / 100"
      by (simp only: split)
    also have "\<dots> = of_int k / 100"
      using False by (simp add: a_def)
    finally show ?thesis .
  qed
qed

subsection \<open>Stripping\<close>

lemma strip_eq_Nil_iff: "strip l = [] \<longleftrightarrow> blank l"
proof -
  have "strip l = [] \<longleftrightarrow> (\<forall>c\<in>set (dropWhile isspace l). isspace c)"
    by (simp add: strip_def)
  also have "\<dots> \<longleftrightarrow> (\<forall>c\<in>set l. isspace c)"
  proof
    assume a: "\<forall>c\<in>set (dropWhile isspace l). isspace c"
    have "dropWhile isspace l = []"
    proof (rule ccontr)
      assume n: "dropWhile isspace l \<noteq> []"
      then have "\<not> isspace (hd (dropWhile isspace l))" by (rule hd_dropWhile)
      moreover have "hd (dropWhile isspace l) \<in> set (dropWhile isspace l)"
        using n by (rule hd_in_set)
      ultimately show False using a by blast
    qed
    then show "\<forall>c\<in>set l. isspace c" by simp
  next
    assume "\<forall>c\<in>set l. isspace c"
    then show "\<forall>c\<in>set (dropWhile isspace l). isspace c"
      by (blast dest: set_dropWhileD)
  qed
  also have "\<dots> \<longleftrightarrow> blank l"
    by (simp add: blank_def list_all_iff)
  finally show ?thesis .
qed

lemma last_dropWhile_nonempty:
  assumes "dropWhile P xs \<noteq> []"
  shows "last (dropWhile P xs) = last xs"
proof -
  have "last xs = last (takeWhile P xs @ dropWhile P xs)" by simp
  also have "\<dots> = last (dropWhile P xs)" using assms by (rule last_appendR)
  finally show ?thesis by simp
qed

lemma strip_idem: "strip (strip l) = strip l"
proof -
  define a where "a = dropWhile isspace l"
  define b where "b = dropWhile isspace (rev a)"
  have s: "strip l = rev b" by (simp add: strip_def a_def b_def)
  have front: "dropWhile isspace (rev b) = rev b"
  proof (cases "b = []")
    case True
    then show ?thesis by simp
  next
    case False
    then have ra: "rev a \<noteq> []" by (auto simp: b_def)
    then have an: "a \<noteq> []" by simp
    have "hd (rev b) = last b" using False by (simp add: hd_rev)
    also have "\<dots> = last (rev a)" using False unfolding b_def by (rule last_dropWhile_nonempty)
    also have "\<dots> = hd a" using an by (simp add: last_rev)
    finally have "hd (rev b) = hd a" .
    moreover have "\<not> isspace (hd a)" using an unfolding a_def by (rule hd_dropWhile)
    ultimately show ?thesis by (simp add: dropWhile_eq_self_iff)
  qed
  have rear: "dropWhile isspace b = b" by (simp add: b_def)
  show ?thesis unfolding s by (simp add: strip_def front rear)
qed

lemma strip_decomposition:
  "\<exists>pre suf. l = pre @ strip l @ suf \<and> list_all isspace pre \<and> list_all isspace suf"
proof -
  define a where "a = dropWhile isspace l"
  have l: "l = takeWhile isspace l @ a"
    by (simp add: a_def)
  have "rev (dropWhile isspace (rev a)) @ rev (takeWhile isspace (rev a)) =
      rev (takeWhile isspace (rev a) @ dropWhile isspace (rev a))"
    by (simp only: rev_append)
  also have "\<dots> = a"
    by (simp only: takeWhile_dropWhile_id rev_rev_ident)
  finally have a: "a = strip l @ rev (takeWhile isspace (rev a))"
    by (simp add: strip_def a_def)
  have p: "list_all isspace (takeWhile isspace l)"
    by (auto simp: list_all_iff dest: set_takeWhileD)
  have s: "list_all isspace (rev (takeWhile isspace (rev a)))"
    by (auto simp: list_all_iff dest: set_takeWhileD)
  have "l = takeWhile isspace l @ strip l @ rev (takeWhile isspace (rev a))"
    using l a by simp
  then show ?thesis
    using p s by blast
qed

lemma strip_ends:
  assumes "strip l \<noteq> []"
  shows "\<not> isspace (hd (strip l))" and "\<not> isspace (last (strip l))"
proof -
  define a where "a = dropWhile isspace l"
  define b where "b = dropWhile isspace (rev a)"
  have s: "strip l = rev b"
    by (simp add: strip_def a_def b_def)
  have bn: "b \<noteq> []"
    using assms s by simp
  then have an: "a \<noteq> []"
    by (auto simp: b_def)
  have "hd (rev b) = last b"
    using bn by (simp add: hd_rev)
  also have "\<dots> = last (rev a)"
    using bn unfolding b_def by (rule last_dropWhile_nonempty)
  also have "\<dots> = hd a"
    using an by (simp add: last_rev)
  finally have "hd (strip l) = hd a"
    by (simp add: s)
  moreover have "\<not> isspace (hd a)"
    using an unfolding a_def by (rule hd_dropWhile)
  ultimately show "\<not> isspace (hd (strip l))"
    by simp
  have "last (rev b) = hd b"
    using bn by (simp add: last_rev)
  moreover have "\<not> isspace (hd b)"
    using bn unfolding b_def by (rule hd_dropWhile)
  ultimately show "\<not> isspace (last (strip l))"
    by (simp add: s)
qed

subsection \<open>The states of an allow-list\<close>

text \<open>
  Absent, present and empty, present with entries: the service-data script keeps the
  three apart for both of its filters; the manufacturer script treats the empty
  allow-list as the absent one.
\<close>

lemma filter_states:
  "\<not> manu_mac_rejected upper None dev"
  "\<not> uuid128_mac_rejected upper None dev"
  "\<not> uuid128_uuid_rejected None u"
  "uuid128_mac_rejected upper (Some {}) dev"
  "uuid128_uuid_rejected (Some {}) u"
  "uuid128_mac_rejected upper (Some macs) dev \<longleftrightarrow> upper (address dev) \<notin> macs"
  "uuid128_uuid_rejected (Some uuids) u \<longleftrightarrow> u \<notin> uuids"
  "macs \<noteq> {} \<Longrightarrow> manu_mac_rejected upper (Some macs) dev \<longleftrightarrow> upper (address dev) \<notin> macs"
  "\<not> manu_mac_rejected upper (Some {}) dev"
  by (simp_all add: manu_mac_rejected_def uuid128_mac_rejected_def uuid128_uuid_rejected_def)

section \<open>The claims\<close>

text \<open>
  C9. A payload of length 0, or an absent payload, decodes to no reading in both variants,
  and the candidate is dropped without output: the manufacturer callback prints nothing
  for the event, and the body of the service-data loop prints nothing for the entry.
\<close>

theorem C9_empty_payload_no_reading:
  "parse_service_data None = (None, None) \<and>
   parse_service_data (Some []) = (None, None) \<and>
   uuid128_body uf dev adv (u, []) = ([], None) \<and>
   (manufacturer_data adv 0xFFFF = None \<or> manufacturer_data adv 0xFFFF = Some [] \<longrightarrow>
      parse_sensor_type_and_value adv = (None, None) \<and>
      manu_callback upper mf dev adv = ([], None))"
  by (auto simp: parse_service_data_def uuid128_body_def parse_sensor_type_and_value_def
      manu_callback_def)

theorem C9_witness:
  "manufacturer_data \<lparr>manufacturer_data = [0xFFFF \<mapsto> []], service_data = Some [(''ab'', [])],
      rssi = - 60\<rparr> 0xFFFF = Some [] \<and>
   manu_callback ascii_upper None \<lparr>address = ''AA:BB:CC:DD:EE:FF'', name = None\<rparr>
     \<lparr>manufacturer_data = [0xFFFF \<mapsto> []], service_data = Some [(''ab'', [])], rssi = - 60\<rparr>
     = ([], None) \<and>
   uuid128_body None \<lparr>address = ''AA:BB:CC:DD:EE:FF'', name = None\<rparr>
     \<lparr>manufacturer_data = [0xFFFF \<mapsto> []], service_data = Some [(''ab'', [])], rssi = - 60\<rparr>
     (''ab'', []) = ([], None)"
  using C9_empty_payload_no_reading
    [where uf = None and dev = "\<lparr>address = ''AA:BB:CC:DD:EE:FF'', name = None\<rparr>"
       and adv = "\<lparr>manufacturer_data = [0xFFFF \<mapsto> []], service_data = Some [(''ab'', [])],
         rssi = - 60\<rparr>"
       and u = "''ab''" and mf = None and upper = ascii_upper]
  by simp

text \<open>
  C7. A payload whose first byte is 0 never yields a line, in either variant: the
  manufacturer callback prints nothing for the event, the body of the service-data loop
  prints nothing for the entry, and the loop prints for the event what it prints for the
  event without that entry.
\<close>

theorem C7_type_zero_silent:
  "(manufacturer_data adv 0xFFFF = Some (0 # rest) \<longrightarrow>
      manu_callback upper mf dev adv = ([], None)) \<and>
   uuid128_body uf dev adv (u, 0 # rest) = ([], None) \<and>
   uuid128_loop uf dev adv (before @ (u, 0 # rest) # after) =
     uuid128_loop uf dev adv (before @ after)"
proof -
  have body: "uuid128_body uf dev adv (u, 0 # rest) = ([], None)"
    using parse_sd_cons [of 0 rest] by (auto simp: uuid128_body_def)
  have manu: "manu_callback upper mf dev adv = ([], None)"
    if "manufacturer_data adv 0xFFFF = Some (0 # rest)"
  proof (cases "length (0 # rest) < 3")
    case True
    with that show ?thesis by (simp add: manu_callback_def parse_manu_short del: length_Cons)
  next
    case False
    then obtain b1 b2 r where "rest = b1 # b2 # r"
      by (cases rest; cases "tl rest") auto
    with that show ?thesis by (simp add: manu_callback_def parse_manu_three)
  qed
  show ?thesis using body manu by (simp add: uuid128_loop_concat)
qed

theorem C7_witness:
  "manu_callback ascii_upper None \<lparr>address = ''AA:BB:CC:DD:EE:FF'', name = None\<rparr>
     \<lparr>manufacturer_data = [0xFFFF \<mapsto> [0, 0x64, 0]], service_data = None, rssi = - 60\<rparr>
     = ([], None) \<and>
   uuid128_body None \<lparr>address = ''AA:BB:CC:DD:EE:FF'', name = None\<rparr>
     \<lparr>manufacturer_data = [0xFFFF \<mapsto> [0, 0x64, 0]], service_data = None, rssi = - 60\<rparr>
     (''ab'', [0, 0x64, 0]) = ([], None)"
  using C7_type_zero_silent
    [where adv = "\<lparr>manufacturer_data = [0xFFFF \<mapsto> [0, 0x64, 0]], service_data = None,
         rssi = - 60\<rparr>"
       and rest = "[0x64, 0]" and mf = None
       and dev = "\<lparr>address = ''AA:BB:CC:DD:EE:FF'', name = None\<rparr>" and uf = None
       and u = "''ab''" and upper = ascii_upper]
  by simp

text \<open>
  C6. In the manufacturer variant, an event that passes the address filter is decoded
  from the payload registered under company identifier 0xFFFF and from nothing else of
  the manufacturer data; when that payload is absent or shorter than 3 bytes the event
  is dropped with no line; an event yields at most one line, and no exception.
\<close>

theorem C6_manu_candidate:
  "(manufacturer_data adv 0xFFFF = None \<longrightarrow> manu_callback upper mf dev adv = ([], None)) \<and>
   (manufacturer_data adv 0xFFFF = Some p \<and> length p < 3 \<longrightarrow>
      manu_callback upper mf dev adv = ([], None)) \<and>
   (manufacturer_data adv 0xFFFF = Some (t # b1 # b2 # rest) \<longrightarrow>
      parse_sensor_type_and_value adv = (Some t, Some [b1, b2])) \<and>
   (manufacturer_data adv 0xFFFF = manufacturer_data adv' 0xFFFF \<and> rssi adv = rssi adv' \<longrightarrow>
      manu_callback upper mf dev adv = manu_callback upper mf dev adv') \<and>
   length (fst (manu_callback upper mf dev adv)) \<le> 1 \<and>
   snd (manu_callback upper mf dev adv) = None"
proof -
  have same: "manu_callback upper mf dev adv = manu_callback upper mf dev adv'"
    if "manufacturer_data adv 0xFFFF = manufacturer_data adv' 0xFFFF" "rssi adv = rssi adv'"
  proof -
    have p: "parse_sensor_type_and_value adv = parse_sensor_type_and_value adv'"
      using that by (simp add: parse_sensor_type_and_value_def)
    have l1: "manu_temp_line dev adv = manu_temp_line dev adv'"
      using that by (simp add: fun_eq_iff manu_temp_line_def)
    have l2: "manu_unknown_line dev adv = manu_unknown_line dev adv'"
      using that by (simp add: fun_eq_iff manu_unknown_line_def)
    show ?thesis by (simp only: manu_callback_def p l1 l2)
  qed
  have le: "length (fst (manu_callback upper mf dev adv)) \<le> 1"
    by (simp add: manu_callback_def split: prod.splits option.splits sum.splits)
  show ?thesis
    using same le manu_callback_no_exn [of upper mf dev adv]
    by (simp add: manu_callback_def parse_manu_absent parse_manu_short parse_manu_three)
qed

theorem C6_witness:
  "manu_callback ascii_upper None \<lparr>address = ''AA:BB:CC:DD:EE:FF'', name = None\<rparr>
     \<lparr>manufacturer_data = [0xFFFF \<mapsto> [1, 0x10]], service_data = None, rssi = - 60\<rparr>
     = ([], None) \<and>
   manu_callback ascii_upper None \<lparr>address = ''AA:BB:CC:DD:EE:FF'', name = None\<rparr>
     \<lparr>manufacturer_data = [0x004C \<mapsto> [1, 0x10, 0x0E]], service_data = None, rssi = - 60\<rparr>
     = ([], None) \<and>
   parse_sensor_type_and_value
     \<lparr>manufacturer_data = [0x004C \<mapsto> [2, 2, 2], 0xFFFF \<mapsto> [1, 0x10, 0x0E, 7]],
      service_data = None, rssi = - 60\<rparr> = (Some 1, Some [0x10, 0x0E]) \<and>
   manu_callback ascii_upper None \<lparr>address = ''AA:BB:CC:DD:EE:FF'', name = None\<rparr>
     \<lparr>manufacturer_data = [0x004C \<mapsto> [2, 2, 2], 0xFFFF \<mapsto> [1, 0x10, 0x0E, 7]],
      service_data = None, rssi = - 60\<rparr> =
   manu_callback ascii_upper None \<lparr>address = ''AA:BB:CC:DD:EE:FF'', name = None\<rparr>
     \<lparr>manufacturer_data = [0xFFFF \<mapsto> [1, 0x10, 0x0E, 7]],
      service_data = Some [(''abcd'', [1])], rssi = - 60\<rparr>"
proof -
  let ?dev = "\<lparr>address = ''AA:BB:CC:DD:EE:FF'', name = None\<rparr>"
  let ?short = "\<lparr>manufacturer_data = [0xFFFF \<mapsto> [1, 0x10]], service_data = None, rssi = - 60\<rparr>"
  let ?other = "\<lparr>manufacturer_data = [0x004C \<mapsto> [1, 0x10, 0x0E]], service_data = None,
    rssi = - 60\<rparr>"
  let ?both = "\<lparr>manufacturer_data = [0x004C \<mapsto> [2, 2, 2], 0xFFFF \<mapsto> [1, 0x10, 0x0E, 7]],
    service_data = None, rssi = - 60\<rparr>"
  let ?one = "\<lparr>manufacturer_data = [0xFFFF \<mapsto> [1, 0x10, 0x0E, 7]],
    service_data = Some [(''abcd'', [1])], rssi = - 60\<rparr>"
  have a: "manu_callback ascii_upper None ?dev ?short = ([], None)"
    using C6_manu_candidate
      [where adv = ?short and mf = None and dev = ?dev and p = "[1, 0x10]" and upper = ascii_upper]
    by simp
  have b: "manu_callback ascii_upper None ?dev ?other = ([], None)"
    using C6_manu_candidate [where adv = ?other and mf = None and dev = ?dev and upper = ascii_upper]
    by simp
  have c: "parse_sensor_type_and_value ?both = (Some 1, Some [0x10, 0x0E])"
    using C6_manu_candidate
      [where adv = ?both and t = 1 and ?b1.0 = "0x10" and ?b2.0 = "0x0E" and rest = "[7]"]
    by simp
  have d: "manu_callback ascii_upper None ?dev ?both = manu_callback ascii_upper None ?dev ?one"
    using C6_manu_candidate
      [where adv = ?both and adv' = ?one and mf = None and dev = ?dev and upper = ascii_upper]
    by simp
  show ?thesis
    using a b c d by blast
qed

text \<open>
  C4. For a payload whose first byte is 1 and which has at least 3 bytes, both variants
  decode bytes 1 and 2 as the signed little-endian 16-bit integer, and the line they
  print shows, in its temperature field, the two-decimal text of that integer divided by
  100; the number which that text denotes is exactly the quotient, sign included. Bytes
  01 DC 09 give 2524 and the text 25.24.
\<close>

theorem C4_temperature_decoding:
  "parse_service_data (Some (1 # b1 # b2 # rest)) = (Some 1, Some [b1, b2]) \<and>
   struct_unpack_h (Some [b1, b2]) = Inr (s16_le b1 b2) \<and>
   (\<not> uuid128_uuid_rejected uf u \<longrightarrow>
      uuid128_body uf dev adv (u, 1 # b1 # b2 # rest) =
        ([address dev @ ''  RSSI '' @ fmt_r4 (rssi adv) @ '' dBm  Temp '' @
          fmt_6_2f (of_int (s16_le b1 b2) / 100) @ '' '' @ degree_sign @ ''C  UUID: '' @ u @
          ''  Nome: '' @ nome_of dev], None)) \<and>
   (manufacturer_data adv 0xFFFF = Some (1 # b1 # b2 # rest) \<longrightarrow>
      parse_sensor_type_and_value adv = (Some 1, Some [b1, b2]) \<and>
      (\<not> manu_mac_rejected upper mf dev \<longrightarrow>
         manu_callback upper mf dev adv =
           ([address dev @ ''  RSSI '' @ fmt_r4 (rssi adv) @ '' dBm  Temp '' @
             fmt_6_2f (of_int (s16_le b1 b2) / 100) @ '' '' @ degree_sign @ ''C  Nome: '' @
             nome_of dev], None))) \<and>
   decimal_text_value (fmt_6_2f (of_int (s16_le b1 b2) / 100)) = of_int (s16_le b1 b2) / 100 \<and>
   - 32768 \<le> s16_le b1 b2 \<and> s16_le b1 b2 \<le> 32767"
proof -
  have unp: "struct_unpack_h (Some [b1, b2]) = Inr (s16_le b1 b2)"
    by (simp add: struct_unpack_h_two s16_le_def)
  have body: "uuid128_body uf dev adv (u, 1 # b1 # b2 # rest) =
        ([address dev @ ''  RSSI '' @ fmt_r4 (rssi adv) @ '' dBm  Temp '' @
          fmt_6_2f (of_int (s16_le b1 b2) / 100) @ '' '' @ degree_sign @ ''C  UUID: '' @ u @
          ''  Nome: '' @ nome_of dev], None)"
    if "\<not> uuid128_uuid_rejected uf u"
    using that by (simp add: uuid128_body_def parse_sd_three unp uuid128_temp_line_def)
  have manu: "manu_callback upper mf dev adv =
           ([address dev @ ''  RSSI '' @ fmt_r4 (rssi adv) @ '' dBm  Temp '' @
             fmt_6_2f (of_int (s16_le b1 b2) / 100) @ '' '' @ degree_sign @ ''C  Nome: '' @
             nome_of dev], None)"
    if "manufacturer_data adv 0xFFFF = Some (1 # b1 # b2 # rest)"
      "\<not> manu_mac_rejected upper mf dev"
    using that by (simp add: manu_callback_def parse_manu_three unp manu_temp_line_def)
  have range: "- 32768 \<le> s16_le b1 b2" "s16_le b1 b2 \<le> 32767"
    using sint_ge [of "word_cat b2 b1 :: 16 word"] sint_lt [of "word_cat b2 b1 :: 16 word"]
    by (simp_all add: s16_le_def)
  show ?thesis
    using unp body manu range fmt_6_2f_denotes [of "s16_le b1 b2"]
    by (simp add: parse_sd_three parse_manu_three)
qed

theorem C4_witness:
  "s16_le 0xDC 0x09 = 2524 \<and>
   manu_callback ascii_upper (Some {''AA:BB:CC:DD:EE:FF''})
     \<lparr>address = ''aa:bb:cc:dd:ee:ff'', name = None\<rparr>
     \<lparr>manufacturer_data = [0xFFFF \<mapsto> [0x01, 0xDC, 0x09]], service_data = None, rssi = - 60\<rparr> =
     ([''aa:bb:cc:dd:ee:ff  RSSI  -60 dBm  Temp  25.24 '' @ degree_sign @
       ''C  Nome: Desconhecido''], None) \<and>
   decimal_text_value '' 25.24'' = 2524 / 100 \<and>
   s16_le 0x18 0xFC = - 1000 \<and>
   uuid128_body None \<lparr>address = ''aa:bb:cc:dd:ee:ff'', name = None\<rparr>
     \<lparr>manufacturer_data = Map.empty, service_data = None, rssi = - 60\<rparr>
     (''abcd'', [0x01, 0x18, 0xFC]) =
     ([''aa:bb:cc:dd:ee:ff  RSSI  -60 dBm  Temp -10.00 '' @ degree_sign @
       ''C  UUID: abcd  Nome: Desconhecido''], None) \<and>
   decimal_text_value ''-10.00'' = - 1000 / 100"
proof -
  let ?dev = "\<lparr>address = ''aa:bb:cc:dd:ee:ff'', name = None\<rparr>"
  let ?adv = "\<lparr>manufacturer_data = [0xFFFF \<mapsto> [0x01, 0xDC, 0x09]], service_data = None,
    rssi = - 60\<rparr>"
  let ?adv2 = "\<lparr>manufacturer_data = Map.empty, service_data = None, rssi = - 60\<rparr>"
  have v1: "s16_le 0xDC 0x09 = 2524"
    unfolding s16_le_def sint_word_cat_bytes by simp
  have v2: "s16_le 0x18 0xFC = - 1000"
    unfolding s16_le_def sint_word_cat_bytes by simp
  have f1: "fmt_6_2f (rat_of_int 2524 / 100) = '' 25.24''"
    by (simp add: render_simps)
  have f2: "fmt_6_2f (rat_of_int (- 1000) / 100) = ''-10.00''"
    by (simp add: render_simps)
  have m: "\<not> manu_mac_rejected ascii_upper (Some {''AA:BB:CC:DD:EE:FF''}) ?dev"
    by (simp add: manu_mac_rejected_def ascii_upper_def ascii_upper_char_def char_of_nat)
  have u: "\<not> uuid128_uuid_rejected None ''abcd''"
    by (simp add: uuid128_uuid_rejected_def)
  have md: "manufacturer_data ?adv 0xFFFF = Some [0x01, 0xDC, 0x09]"
    by simp
  note i1 = C4_temperature_decoding
      [where ?b1.0 = "0xDC" and ?b2.0 = "0x09" and rest = "[]" and dev = ?dev and adv = ?adv
         and mf = "Some {''AA:BB:CC:DD:EE:FF''}" and upper = ascii_upper]
  note i2 = C4_temperature_decoding
      [where ?b1.0 = "0x18" and ?b2.0 = "0xFC" and rest = "[]" and dev = ?dev and adv = ?adv2
         and uf = None and u = "''abcd''"]
  have "manu_callback ascii_upper (Some {''AA:BB:CC:DD:EE:FF''}) ?dev ?adv =
      ([address ?dev @ ''  RSSI '' @ fmt_r4 (rssi ?adv) @ '' dBm  Temp '' @
        fmt_6_2f (of_int (s16_le 0xDC 0x09) / 100) @ '' '' @ degree_sign @ ''C  Nome: '' @
        nome_of ?dev], None)"
    using i1 m md by blast
  then have a: "manu_callback ascii_upper (Some {''AA:BB:CC:DD:EE:FF''}) ?dev ?adv =
      ([''aa:bb:cc:dd:ee:ff  RSSI  -60 dBm  Temp  25.24 '' @ degree_sign @
        ''C  Nome: Desconhecido''], None)"
    unfolding v1 f1 by (simp add: fmt_r4_def str_int_def rjust_def str_nat_numeral
        digit_char_def char_of_nat nome_of_def)
  have "uuid128_body None ?dev ?adv2 (''abcd'', [0x01, 0x18, 0xFC]) =
      ([address ?dev @ ''  RSSI '' @ fmt_r4 (rssi ?adv2) @ '' dBm  Temp '' @
        fmt_6_2f (of_int (s16_le 0x18 0xFC) / 100) @ '' '' @ degree_sign @ ''C  UUID: '' @
        ''abcd'' @ ''  Nome: '' @ nome_of ?dev], None)"
    using i2 u by blast
  then have b: "uuid128_body None ?dev ?adv2 (''abcd'', [0x01, 0x18, 0xFC]) =
      ([''aa:bb:cc:dd:ee:ff  RSSI  -60 dBm  Temp -10.00 '' @ degree_sign @
        ''C  UUID: abcd  Nome: Desconhecido''], None)"
    unfolding v2 f2 by (simp add: fmt_r4_def str_int_def rjust_def str_nat_numeral
        digit_char_def char_of_nat nome_of_def)
  have "decimal_text_value (fmt_6_2f (of_int (s16_le 0xDC 0x09) / 100)) =
      of_int (s16_le 0xDC 0x09) / 100"
    using i1 by blast
  then have c: "decimal_text_value '' 25.24'' = 2524 / 100"
    unfolding v1 f1 by simp
  have "decimal_text_value (fmt_6_2f (of_int (s16_le 0x18 0xFC) / 100)) =
      of_int (s16_le 0x18 0xFC) / 100"
    using i2 by blast
  then have d: "decimal_text_value ''-10.00'' = - 1000 / 100"
    unfolding v2 f2 by simp
  show ?thesis
    using v1 v2 a b c d by blast
qed

text \<open>
  C8. For a payload whose first byte is neither 0 nor 1: in the service-data variant
  (one byte is enough) and in the manufacturer variant (at least 3 bytes), an event
  that passes the filters yields exactly the "Sensor desconhecido" line, in which the
  type code stands as two-digit uppercase hexadecimal.
\<close>

theorem C8_unknown_sensor_hex:
  assumes "t \<noteq> 0" and "t \<noteq> 1"
  shows
  "(\<not> uuid128_uuid_rejected uf u \<longrightarrow>
      uuid128_body uf dev adv (u, t # rest) = ([uuid128_unknown_line dev adv t u], None)) \<and>
   (manufacturer_data adv 0xFFFF = Some (t # b1 # b2 # rest) \<and> \<not> manu_mac_rejected upper mf dev \<longrightarrow>
      manu_callback upper mf dev adv = ([manu_unknown_line dev adv t], None)) \<and>
   uuid128_unknown_line dev adv t u =
     address dev @ ''  RSSI '' @ fmt_r4 (rssi adv) @ '' dBm  Sensor desconhecido (tipo '' @
     two_digit_upper_hex (unat t) @ '')  UUID: '' @ u @ ''  Nome: '' @ nome_of dev \<and>
   manu_unknown_line dev adv t =
     address dev @ ''  RSSI '' @ fmt_r4 (rssi adv) @ '' dBm  Sensor desconhecido (tipo '' @
     two_digit_upper_hex (unat t) @ '')  Nome: '' @ nome_of dev"
proof -
  have hex: "fmt_02X (unat t) = two_digit_upper_hex (unat t)"
    by (rule fmt_02X_byte) (rule unat_byte_less)
  obtain v where v: "parse_service_data (Some (t # rest)) = (Some t, v)"
    using parse_sd_cons by blast
  have body: "uuid128_body uf dev adv (u, t # rest) = ([uuid128_unknown_line dev adv t u], None)"
    if "\<not> uuid128_uuid_rejected uf u"
    using that assms by (simp add: uuid128_body_def v)
  have manu: "manu_callback upper mf dev adv = ([manu_unknown_line dev adv t], None)"
    if "manufacturer_data adv 0xFFFF = Some (t # b1 # b2 # rest)" "\<not> manu_mac_rejected upper mf dev"
    using that assms by (simp add: manu_callback_def parse_manu_three)
  show ?thesis
    using body manu by (simp add: uuid128_unknown_line_def manu_unknown_line_def hex)
qed

theorem C8_witness:
  "(0x0A :: byte) \<noteq> 0 \<and> (0x0A :: byte) \<noteq> 1 \<and>
   two_digit_upper_hex (unat (0x0A :: byte)) = ''0A'' \<and>
   uuid128_body None \<lparr>address = ''aa:bb:cc:dd:ee:ff'', name = Some ''node''\<rparr>
     \<lparr>manufacturer_data = [0xFFFF \<mapsto> [0x0A, 0, 0]], service_data = None, rssi = - 60\<rparr>
     (''abcd'', [0x0A]) =
     ([''aa:bb:cc:dd:ee:ff  RSSI  -60 dBm  Sensor desconhecido (tipo 0A)  UUID: abcd  Nome: node''],
      None) \<and>
   manu_callback ascii_upper None \<lparr>address = ''aa:bb:cc:dd:ee:ff'', name = Some ''node''\<rparr>
     \<lparr>manufacturer_data = [0xFFFF \<mapsto> [0x0A, 0, 0]], service_data = None, rssi = - 60\<rparr> =
     ([''aa:bb:cc:dd:ee:ff  RSSI  -60 dBm  Sensor desconhecido (tipo 0A)  Nome: node''], None)"
proof -
  let ?dev = "\<lparr>address = ''aa:bb:cc:dd:ee:ff'', name = Some ''node''\<rparr>"
  let ?adv = "\<lparr>manufacturer_data = [0xFFFF \<mapsto> [0x0A, 0, 0]], service_data = None, rssi = - 60\<rparr>"
  have t: "(0x0A :: byte) \<noteq> 0" "(0x0A :: byte) \<noteq> 1"
    by simp_all
  have hx: "two_digit_upper_hex (unat (0x0A :: byte)) = ''0A''"
    by (simp add: two_digit_upper_hex_def)
  have r: "fmt_r4 (- 60) = '' -60''"
    by (simp add: render_simps)
  have n: "nome_of ?dev = ''node''"
    by (simp add: nome_of_def)
  have m: "\<not> manu_mac_rejected ascii_upper None ?dev" "\<not> uuid128_uuid_rejected None ''abcd''"
    by (simp_all add: manu_mac_rejected_def uuid128_uuid_rejected_def)
  have md: "manufacturer_data ?adv 0xFFFF = Some [0x0A, 0, 0]"
    by simp
  note inst1 = C8_unknown_sensor_hex
      [OF t, where uf = None and u = "''abcd''" and dev = ?dev and adv = ?adv and rest = "[]"
         and ?b1.0 = 0 and ?b2.0 = 0 and mf = None and upper = ascii_upper]
  have body: "uuid128_body None ?dev ?adv (''abcd'', [0x0A]) =
      ([''aa:bb:cc:dd:ee:ff  RSSI  -60 dBm  Sensor desconhecido (tipo 0A)  UUID: abcd  Nome: node''],
       None)"
    using inst1 m hx r n by simp
  have manu: "manu_callback ascii_upper None ?dev ?adv =
      ([''aa:bb:cc:dd:ee:ff  RSSI  -60 dBm  Sensor desconhecido (tipo 0A)  Nome: node''], None)"
    using inst1 m md hx r n by simp
  show ?thesis
    using t hx body manu by simp
qed

text \<open>
  C10. Two payloads of at least 3 bytes that agree on their first three bytes are
  indistinguishable: both decoders return the same type and value bytes, and both
  callbacks print the same lines for two events that differ only in that payload.
\<close>

theorem C10_bytes_beyond_three_ignored:
  assumes "take 3 p = take 3 q" and "3 \<le> length p" and "3 \<le> length q"
  shows
  "parse_service_data (Some p) = parse_service_data (Some q) \<and>
   uuid128_body uf dev adv (u, p) = uuid128_body uf dev adv (u, q) \<and>
   uuid128_callback upper lower mf uf dev (adv\<lparr>service_data := Some (before @ (u, p) # after)\<rparr>) =
     uuid128_callback upper lower mf uf dev (adv\<lparr>service_data := Some (before @ (u, q) # after)\<rparr>) \<and>
   parse_sensor_type_and_value (adv\<lparr>manufacturer_data := (manufacturer_data adv)(0xFFFF \<mapsto> p)\<rparr>) =
     parse_sensor_type_and_value (adv\<lparr>manufacturer_data := (manufacturer_data adv)(0xFFFF \<mapsto> q)\<rparr>) \<and>
   manu_callback upper mf' dev (adv\<lparr>manufacturer_data := (manufacturer_data adv)(0xFFFF \<mapsto> p)\<rparr>) =
     manu_callback upper mf' dev (adv\<lparr>manufacturer_data := (manufacturer_data adv)(0xFFFF \<mapsto> q)\<rparr>)"
proof -
  obtain t b1 b2 r where p: "p = t # b1 # b2 # r"
    using length_three_shape [OF assms(2)] by auto
  obtain t' b1' b2' r' where q0: "q = t' # b1' # b2' # r'"
    using length_three_shape [OF assms(3)] by auto
  have q: "q = t # b1 # b2 # r'"
    using assms(1) p q0 by simp
  let ?ap = "adv\<lparr>manufacturer_data := (manufacturer_data adv)(0xFFFF \<mapsto> p)\<rparr>"
  let ?aq = "adv\<lparr>manufacturer_data := (manufacturer_data adv)(0xFFFF \<mapsto> q)\<rparr>"
  let ?sp = "adv\<lparr>service_data := Some (before @ (u, p) # after)\<rparr>"
  let ?sq = "adv\<lparr>service_data := Some (before @ (u, q) # after)\<rparr>"
  have parse_sd: "parse_service_data (Some p) = parse_service_data (Some q)"
    by (simp add: p q parse_sd_three)
  have body: "uuid128_body uf dev a (x, p) = uuid128_body uf dev a (x, q)" for a x
    by (simp add: uuid128_body_def parse_sd)
  have bp: "uuid128_body uf dev ?sp = uuid128_body uf dev adv"
    by (rule ext) (rule uuid128_body_rssi, simp)
  have bq: "uuid128_body uf dev ?sq = uuid128_body uf dev adv"
    by (rule ext) (rule uuid128_body_rssi, simp)
  have cb: "uuid128_callback upper lower mf uf dev ?sp = uuid128_callback upper lower mf uf dev ?sq"
    by (simp add: uuid128_callback_concat get_service_data_payload_def bp bq body)
  have pm: "parse_sensor_type_and_value ?ap = parse_sensor_type_and_value ?aq"
    by (simp add: parse_sensor_type_and_value_def p q)
  have l1: "manu_temp_line dev ?ap = manu_temp_line dev ?aq"
    by (simp add: fun_eq_iff manu_temp_line_def)
  have l2: "manu_unknown_line dev ?ap = manu_unknown_line dev ?aq"
    by (simp add: fun_eq_iff manu_unknown_line_def)
  have manu: "manu_callback upper mf' dev ?ap = manu_callback upper mf' dev ?aq"
    by (simp only: manu_callback_def pm l1 l2)
  show ?thesis
    using parse_sd body cb pm manu by simp
qed

theorem C10_witness:
  "take 3 [1, 0x10, 0x0E, 0xAA :: byte] = take 3 [1, 0x10, 0x0E, 0x55, 0x77] \<and>
   parse_service_data (Some [1, 0x10, 0x0E, 0xAA]) = parse_service_data (Some [1, 0x10, 0x0E, 0x55, 0x77]) \<and>
   manu_callback ascii_upper None \<lparr>address = ''aa:bb:cc:dd:ee:ff'', name = None\<rparr>
     \<lparr>manufacturer_data = [0xFFFF \<mapsto> [1, 0x10, 0x0E, 0xAA]], service_data = None, rssi = - 60\<rparr> =
   manu_callback ascii_upper None \<lparr>address = ''aa:bb:cc:dd:ee:ff'', name = None\<rparr>
     \<lparr>manufacturer_data = [0xFFFF \<mapsto> [1, 0x10, 0x0E, 0x55, 0x77]], service_data = None, rssi = - 60\<rparr>"
proof -
  have h: "take 3 [1, 0x10, 0x0E, 0xAA :: byte] = take 3 [1, 0x10, 0x0E, 0x55, 0x77]"
    "3 \<le> length [1, 0x10, 0x0E, 0xAA :: byte]" "3 \<le> length [1, 0x10, 0x0E, 0x55, 0x77 :: byte]"
    by simp_all
  note inst = C10_bytes_beyond_three_ignored
      [OF h, where adv = "\<lparr>manufacturer_data = Map.empty, service_data = None, rssi = - 60\<rparr>"
         and dev = "\<lparr>address = ''aa:bb:cc:dd:ee:ff'', name = None\<rparr>" and mf' = None
         and upper = ascii_upper]
  show ?thesis
    using h(1) inst by simp
qed




text \<open>
  C1. The allow-list has three states: absent (every address passes), present and empty
  (no address passes), present with entries (only listed addresses pass). The
  service-data script keeps them apart (\<^verbatim>\<open>mac_filter is not None\<close>). The manufacturer
  script tests the truth value of \<^verbatim>\<open>mac_filter\<close>, which is false for the empty set as
  for \<^verbatim>\<open>None\<close>: started with an existing, empty allow-list file it loads the empty
  set and then prints a line for an event that the service-data script rejects under the
  same allow-list.
\<close>

theorem C1_manu_empty_allow_list_passes:
  "startup_filter (load_mac_list upper)
     (\<lambda>p. if p = ''macs.txt'' then Inr [] else Inl FileNotFoundError)
     (Some ''macs.txt'') = Inr (Some {}) \<and>
   manu_callback upper (Some {}) \<lparr>address = ''AA:BB:CC:DD:EE:FF'', name = None\<rparr>
     \<lparr>manufacturer_data = [0xFFFF \<mapsto> [0x01, 0x10, 0x0E]],
      service_data = Some [(''abcd'', [0x01, 0x10, 0x0E])], rssi = - 60\<rparr> =
     ([''AA:BB:CC:DD:EE:FF  RSSI  -60 dBm  Temp  36.00 '' @ degree_sign @
       ''C  Nome: Desconhecido''], None) \<and>
   uuid128_callback upper lower (Some {}) None \<lparr>address = ''AA:BB:CC:DD:EE:FF'', name = None\<rparr>
     \<lparr>manufacturer_data = [0xFFFF \<mapsto> [0x01, 0x10, 0x0E]],
      service_data = Some [(''abcd'', [0x01, 0x10, 0x0E])], rssi = - 60\<rparr> = ([], None)"
proof -
  let ?dev = "\<lparr>address = ''AA:BB:CC:DD:EE:FF'', name = None\<rparr>"
  let ?adv = "\<lparr>manufacturer_data = [0xFFFF \<mapsto> [0x01, 0x10, 0x0E]],
      service_data = Some [(''abcd'', [0x01, 0x10, 0x0E])], rssi = - 60\<rparr>"
  have s: "startup_filter (load_mac_list upper)
      (\<lambda>p. if p = ''macs.txt'' then Inr [] else Inl FileNotFoundError) (Some ''macs.txt'') =
      Inr (Some {})"
    by (simp add: startup_filter_def load_mac_list_def)
  have v: "struct_unpack_h (Some [0x10, 0x0E]) = Inr 3600"
    by (simp add: struct_unpack_h_def)
  have line: "manu_temp_line ?dev ?adv (3600 / 100) =
      ''AA:BB:CC:DD:EE:FF  RSSI  -60 dBm  Temp  36.00 '' @ degree_sign @ ''C  Nome: Desconhecido''"
    by (simp add: manu_temp_line_def render_simps)
  have manu: "manu_callback upper (Some {}) ?dev ?adv =
      ([manu_temp_line ?dev ?adv (3600 / 100)], None)"
    by (simp add: manu_callback_def manu_mac_rejected_def parse_sensor_type_and_value_def v)
  have sd: "uuid128_callback upper lower (Some {}) None ?dev ?adv = ([], None)"
    by (simp add: uuid128_callback_def uuid128_mac_rejected_def)
  show ?thesis
    unfolding manu line using s sd by simp
qed

text \<open>
  C5 (as amended). In the service-data variant, after the address filter, the lines of
  an event are the lines of its service-data pairs, each pair treated on its own and in
  the order of the dictionary; a pair whose lower-cased UUID is not in an enabled UUID
  allow-list yields nothing. For an event with two entries of which one UUID is listed
  and the other is not, the output is the output of the listed entry alone: at most one
  line, and exactly one line, naming the listed UUID, when the payload of the listed
  entry is not empty and its first byte is not 0.
\<close>

theorem C5_service_data_pairs:
  "uuid128_callback upper lower mf uf dev adv =
     (if uuid128_mac_rejected upper mf dev then []
      else concat (map (\<lambda>pair. fst (uuid128_body uf dev adv pair))
             (get_service_data_payload lower adv)), None) \<and>
   (uuid128_uuid_rejected uf u \<longrightarrow> uuid128_body uf dev adv (u, p) = ([], None)) \<and>
   (\<not> uuid128_mac_rejected upper mf dev \<and> \<not> uuid128_uuid_rejected uf (lower u1) \<and>
    uuid128_uuid_rejected uf (lower u2) \<longrightarrow>
      uuid128_callback upper lower mf uf dev (adv\<lparr>service_data := Some [(u1, p1), (u2, p2)]\<rparr>) =
        uuid128_body uf dev adv (lower u1, p1) \<and>
      uuid128_callback upper lower mf uf dev (adv\<lparr>service_data := Some [(u2, p2), (u1, p1)]\<rparr>) =
        uuid128_body uf dev adv (lower u1, p1) \<and>
      length (fst (uuid128_body uf dev adv (lower u1, p1))) \<le> 1 \<and>
      (p1 = t # rest \<and> t \<noteq> 0 \<longrightarrow>
        (\<exists>reading. uuid128_body uf dev adv (lower u1, p1) =
           ([address dev @ ''  RSSI '' @ fmt_r4 (rssi adv) @ '' dBm  '' @ reading @
             ''  UUID: '' @ lower u1 @ ''  Nome: '' @ nome_of dev], None))))"
proof -
  have skip: "uuid128_body uf dev a (x, y) = ([], None)" if "uuid128_uuid_rejected uf x" for a x y
    using that by (simp add: uuid128_body_def)
  have two: "uuid128_callback upper lower mf uf dev (adv\<lparr>service_data := Some [(u1, p1), (u2, p2)]\<rparr>) =
        uuid128_body uf dev adv (lower u1, p1) \<and>
      uuid128_callback upper lower mf uf dev (adv\<lparr>service_data := Some [(u2, p2), (u1, p1)]\<rparr>) =
        uuid128_body uf dev adv (lower u1, p1)"
    if h: "\<not> uuid128_mac_rejected upper mf dev" "uuid128_uuid_rejected uf (lower u2)"
  proof -
    have e: "uuid128_body uf dev (adv\<lparr>service_data := s\<rparr>) = uuid128_body uf dev adv" for s
      by (rule ext) (rule uuid128_body_rssi, simp)
    have b: "uuid128_body uf dev adv (lower u1, p1) =
        (fst (uuid128_body uf dev adv (lower u1, p1)), None)"
      using uuid128_body_no_exn [of uf dev adv "(lower u1, p1)"]
      by (cases "uuid128_body uf dev adv (lower u1, p1)") simp
    show ?thesis
      using h b by (simp add: uuid128_callback_concat get_service_data_payload_def e skip)
  qed
  have le: "length (fst (uuid128_body uf dev adv (lower u1, p1))) \<le> 1"
    by (simp add: uuid128_body_def split: prod.splits option.splits sum.splits)
  have one: "\<exists>reading. uuid128_body uf dev adv (lower u1, p1) =
           ([address dev @ ''  RSSI '' @ fmt_r4 (rssi adv) @ '' dBm  '' @ reading @
             ''  UUID: '' @ lower u1 @ ''  Nome: '' @ nome_of dev], None)"
    if h: "\<not> uuid128_uuid_rejected uf (lower u1)" "p1 = t # rest" "t \<noteq> 0"
  proof (cases "t = 1 \<and> 3 \<le> length p1")
    case True
    then obtain b1 b2 r where p: "p1 = 1 # b1 # b2 # r"
      using h(2) length_three_shape [of p1] by auto
    have "uuid128_body uf dev adv (lower u1, p1) =
        ([uuid128_temp_line dev adv (of_int (s16_le b1 b2) / 100) (lower u1)], None)"
      using h(1) by (simp add: uuid128_body_def p parse_sd_three struct_unpack_h_two s16_le_def)
    then show ?thesis
      by (auto simp: uuid128_temp_line_def)
  next
    case False
    have "uuid128_body uf dev adv (lower u1, p1) =
        ([uuid128_unknown_line dev adv t (lower u1)], None)"
      using h False by (auto simp: uuid128_body_def parse_service_data_def)
    then show ?thesis
      by (auto simp: uuid128_unknown_line_def)
  qed
  show ?thesis
    using skip two le one by (simp add: uuid128_callback_concat)
qed

theorem C5_witness:
  "\<not> uuid128_mac_rejected ascii_upper None \<lparr>address = ''aa:bb:cc:dd:ee:ff'', name = Some ''node''\<rparr> \<and>
   \<not> uuid128_uuid_rejected (Some {''0000aaaa-0000-1000-8000-00805f9b34fb''})
       (ascii_lower ''0000AAAA-0000-1000-8000-00805F9B34FB'') \<and>
   uuid128_uuid_rejected (Some {''0000aaaa-0000-1000-8000-00805f9b34fb''})
       (ascii_lower ''0000bbbb-0000-1000-8000-00805f9b34fb'') \<and>
   uuid128_callback ascii_upper ascii_lower None (Some {''0000aaaa-0000-1000-8000-00805f9b34fb''})
     \<lparr>address = ''aa:bb:cc:dd:ee:ff'', name = Some ''node''\<rparr>
     \<lparr>manufacturer_data = Map.empty,
      service_data = Some [(''0000AAAA-0000-1000-8000-00805F9B34FB'', [0x01, 0x64, 0x00]),
                           (''0000bbbb-0000-1000-8000-00805f9b34fb'', [0x01, 0x10, 0x0E])],
      rssi = - 60\<rparr> =
     ([''aa:bb:cc:dd:ee:ff  RSSI  -60 dBm  Temp   1.00 '' @ degree_sign @
       ''C  UUID: 0000aaaa-0000-1000-8000-00805f9b34fb  Nome: node''], None)"
proof -
  let ?dev = "\<lparr>address = ''aa:bb:cc:dd:ee:ff'', name = Some ''node''\<rparr>"
  let ?adv = "\<lparr>manufacturer_data = Map.empty, service_data = None, rssi = - 60\<rparr>"
  let ?uf = "Some {''0000aaaa-0000-1000-8000-00805f9b34fb''}"
  have lo1: "ascii_lower ''0000AAAA-0000-1000-8000-00805F9B34FB'' = ''0000aaaa-0000-1000-8000-00805f9b34fb''"
    by (simp add: ascii_lower_def ascii_lower_char_def char_of_nat)
  have lo2: "ascii_lower ''0000bbbb-0000-1000-8000-00805f9b34fb'' = ''0000bbbb-0000-1000-8000-00805f9b34fb''"
    by (simp add: ascii_lower_def ascii_lower_char_def char_of_nat)
  have m: "\<not> uuid128_mac_rejected ascii_upper None ?dev"
    by (simp add: uuid128_mac_rejected_def)
  have u1: "\<not> uuid128_uuid_rejected ?uf (ascii_lower ''0000AAAA-0000-1000-8000-00805F9B34FB'')"
    unfolding lo1 by (simp add: uuid128_uuid_rejected_def)
  have u2: "uuid128_uuid_rejected ?uf (ascii_lower ''0000bbbb-0000-1000-8000-00805f9b34fb'')"
    unfolding lo2 by (simp add: uuid128_uuid_rejected_def)
  have v: "s16_le 0x64 0x00 = 100"
    unfolding s16_le_def sint_word_cat_bytes by simp
  have line: "uuid128_temp_line ?dev ?adv (100 / 100) ''0000aaaa-0000-1000-8000-00805f9b34fb'' =
      ''aa:bb:cc:dd:ee:ff  RSSI  -60 dBm  Temp   1.00 '' @ degree_sign @
      ''C  UUID: 0000aaaa-0000-1000-8000-00805f9b34fb  Nome: node''"
    by (simp add: uuid128_temp_line_def render_simps)
  have body: "uuid128_body ?uf ?dev ?adv (''0000aaaa-0000-1000-8000-00805f9b34fb'', [0x01, 0x64, 0x00]) =
      ([uuid128_temp_line ?dev ?adv (100 / 100) ''0000aaaa-0000-1000-8000-00805f9b34fb''], None)"
    using u1 v unfolding lo1
    by (simp add: uuid128_body_def parse_sd_three struct_unpack_h_two s16_le_def)
  note inst = C5_service_data_pairs
      [where mf = None and uf = ?uf and dev = ?dev and adv = ?adv
         and upper = ascii_upper and lower = ascii_lower
         and ?u1.0 = "''0000AAAA-0000-1000-8000-00805F9B34FB''" and ?p1.0 = "[0x01, 0x64, 0x00]"
         and ?u2.0 = "''0000bbbb-0000-1000-8000-00805f9b34fb''" and ?p2.0 = "[0x01, 0x10, 0x0E]"]
  have "uuid128_callback ascii_upper ascii_lower None ?uf ?dev
      (?adv\<lparr>service_data := Some [(''0000AAAA-0000-1000-8000-00805F9B34FB'', [0x01, 0x64, 0x00]),
                                    (''0000bbbb-0000-1000-8000-00805f9b34fb'', [0x01, 0x10, 0x0E])]\<rparr>) =
      uuid128_body ?uf ?dev ?adv (ascii_lower ''0000AAAA-0000-1000-8000-00805F9B34FB'', [0x01, 0x64, 0x00])"
    using inst m u1 u2 by blast
  then show ?thesis
    using m u1 u2 unfolding lo1 body line by simp
qed

text \<open>
  The claim as written fails for an event with two entries of which only the first UUID
  is listed, when the payload of the listed entry starts with the reserved type 0: no
  line is printed.
\<close>

theorem C5_counterexample:
  "uuid128_callback ascii_upper ascii_lower None (Some {''0000aaaa-0000-1000-8000-00805f9b34fb''})
     \<lparr>address = ''aa:bb:cc:dd:ee:ff'', name = Some ''node''\<rparr>
     \<lparr>manufacturer_data = Map.empty,
      service_data = Some [(''0000aaaa-0000-1000-8000-00805f9b34fb'', [0x00, 0x64, 0x00]),
                           (''0000bbbb-0000-1000-8000-00805f9b34fb'', [0x01, 0x64, 0x00])],
      rssi = - 60\<rparr> = ([], None)"
proof -
  have lo1: "ascii_lower ''0000aaaa-0000-1000-8000-00805f9b34fb'' = ''0000aaaa-0000-1000-8000-00805f9b34fb''"
    by (simp add: ascii_lower_def ascii_lower_char_def char_of_nat)
  have lo2: "ascii_lower ''0000bbbb-0000-1000-8000-00805f9b34fb'' = ''0000bbbb-0000-1000-8000-00805f9b34fb''"
    by (simp add: ascii_lower_def ascii_lower_char_def char_of_nat)
  show ?thesis
    by (simp add: uuid128_callback_def uuid128_mac_rejected_def get_service_data_payload_def
        lo1 lo2 uuid128_body_def uuid128_uuid_rejected_def parse_sd_three)
qed

text \<open>
  C3 (as amended). When no file exists at the path (\<^verbatim>\<open>open\<close> raises
  \<^verbatim>\<open>FileNotFoundError\<close>), both loaders return the absent state, report the warning
  and do not fail; any other failure to open the file is not caught and leaves the
  loader as an exception. For a file that is read, the loader returns the set of its
  non-blank lines, each stripped of surrounding whitespace and then put in upper case
  (addresses) or lower case (UUIDs) by the built-in, and reports the size of that set.
  Stripping removes a run of whitespace at each end of the line and nothing else: what
  it leaves of a non-blank line is not empty and neither begins nor ends with whitespace.
\<close>

theorem C3_load_allow_list:
  "(fs path = Inl FileNotFoundError \<longrightarrow>
      load_mac_list upper fs path = Inr (None, [Warning_not_found path]) \<and>
      load_uuid128_list lower fs path = Inr (None, [Warning_not_found path])) \<and>
   (fs path = Inl e \<and> e \<noteq> FileNotFoundError \<longrightarrow>
      load_mac_list upper fs path = Inl e \<and> load_uuid128_list lower fs path = Inl e) \<and>
   (fs path = Inr f \<longrightarrow>
      load_mac_list upper fs path =
        Inr (Some {upper (strip l) | l. l \<in> set f \<and> \<not> blank l},
             [Loaded (card {upper (strip l) | l. l \<in> set f \<and> \<not> blank l})]) \<and>
      load_uuid128_list lower fs path =
        Inr (Some {lower (strip l) | l. l \<in> set f \<and> \<not> blank l},
             [Loaded (card {lower (strip l) | l. l \<in> set f \<and> \<not> blank l})])) \<and>
   (\<exists>pre suf. l = pre @ strip l @ suf \<and> blank pre \<and> blank suf) \<and>
   (\<not> blank l \<longrightarrow>
      strip l \<noteq> [] \<and> \<not> isspace (hd (strip l)) \<and> \<not> isspace (last (strip l)))"
proof -
  have nf: "load_mac_list upper fs path = Inr (None, [Warning_not_found path]) \<and>
      load_uuid128_list lower fs path = Inr (None, [Warning_not_found path])"
    if "fs path = Inl FileNotFoundError"
    using that by (simp add: load_mac_list_def load_uuid128_list_def)
  have other: "load_mac_list upper fs path = Inl e \<and> load_uuid128_list lower fs path = Inl e"
    if "fs path = Inl e" "e \<noteq> FileNotFoundError"
    using that by (cases e) (simp_all add: load_mac_list_def load_uuid128_list_def)
  have sets: "set (map g (filter (\<lambda>line. strip line \<noteq> []) f)) =
      {g l | l. l \<in> set f \<and> \<not> blank l}" for g :: "string \<Rightarrow> string"
    by (auto simp: strip_eq_Nil_iff)
  have rd: "load_mac_list upper fs path =
        Inr (Some {upper (strip l) | l. l \<in> set f \<and> \<not> blank l},
             [Loaded (card {upper (strip l) | l. l \<in> set f \<and> \<not> blank l})]) \<and>
      load_uuid128_list lower fs path =
        Inr (Some {lower (strip l) | l. l \<in> set f \<and> \<not> blank l},
             [Loaded (card {lower (strip l) | l. l \<in> set f \<and> \<not> blank l})])"
    if "fs path = Inr f"
    using that
    by (simp only: load_mac_list_def load_uuid128_list_def sum.case Let_def
        sets [of "\<lambda>line. upper (strip line)"] sets [of "\<lambda>line. lower (strip line)"])
  have dec: "\<exists>pre suf. l = pre @ strip l @ suf \<and> blank pre \<and> blank suf"
    using strip_decomposition [of l] by (simp add: blank_def)
  have ends: "strip l \<noteq> [] \<and> \<not> isspace (hd (strip l)) \<and> \<not> isspace (last (strip l))"
    if "\<not> blank l"
  proof -
    have "strip l \<noteq> []"
      using that by (simp add: strip_eq_Nil_iff)
    then show ?thesis
      using strip_ends [of l] by simp
  qed
  show ?thesis
    using nf other rd dec ends by blast
qed

theorem C3_witness:
  "load_mac_list ascii_upper
     (\<lambda>p. if p = ''macs.txt'' then Inr [''  aa:bb:cc:dd:ee:ff \<newline>'', ''\<newline>'',
        ''AA:BB:CC:DD:EE:01\<newline>''] else Inl FileNotFoundError) ''macs.txt'' =
     Inr (Some {''AA:BB:CC:DD:EE:FF'', ''AA:BB:CC:DD:EE:01''}, [Loaded 2]) \<and>
   {ascii_upper (strip l) | l. l \<in> set [''  aa:bb:cc:dd:ee:ff \<newline>'', ''\<newline>'',
        ''AA:BB:CC:DD:EE:01\<newline>''] \<and> \<not> blank l} =
     {''AA:BB:CC:DD:EE:FF'', ''AA:BB:CC:DD:EE:01''} \<and>
   load_uuid128_list ascii_lower
     (\<lambda>p. if p = ''macs.txt'' then Inr [''  aa:bb:cc:dd:ee:ff \<newline>'', ''\<newline>'',
        ''AA:BB:CC:DD:EE:01\<newline>''] else Inl FileNotFoundError) ''none.txt'' =
     Inr (None, [Warning_not_found ''none.txt'']) \<and>
   load_mac_list ascii_upper (\<lambda>p. Inl IsADirectoryError) ''lists'' = Inl IsADirectoryError \<and>
   \<not> blank ''  aa:bb:cc:dd:ee:ff \<newline>'' \<and>
   strip ''  aa:bb:cc:dd:ee:ff \<newline>'' = ''aa:bb:cc:dd:ee:ff'' \<and>
   \<not> isspace (hd (strip ''  aa:bb:cc:dd:ee:ff \<newline>'')) \<and>
   \<not> isspace (last (strip ''  aa:bb:cc:dd:ee:ff \<newline>''))"
proof -
  let ?f = "[''  aa:bb:cc:dd:ee:ff \<newline>'', ''\<newline>'', ''AA:BB:CC:DD:EE:01\<newline>'']"
  let ?fs = "\<lambda>p. if p = ''macs.txt'' then Inr ?f else Inl FileNotFoundError"
  have s1: "strip ''  aa:bb:cc:dd:ee:ff \<newline>'' = ''aa:bb:cc:dd:ee:ff''"
    by (simp add: strip_def isspace_def)
  have s2: "strip ''\<newline>'' = []"
    by (simp add: strip_def isspace_def)
  have s3: "strip ''AA:BB:CC:DD:EE:01\<newline>'' = ''AA:BB:CC:DD:EE:01''"
    by (simp add: strip_def isspace_def)
  have u1: "ascii_upper ''aa:bb:cc:dd:ee:ff'' = ''AA:BB:CC:DD:EE:FF''"
    by (simp add: ascii_upper_def ascii_upper_char_def char_of_nat)
  have u3: "ascii_upper ''AA:BB:CC:DD:EE:01'' = ''AA:BB:CC:DD:EE:01''"
    by (simp add: ascii_upper_def ascii_upper_char_def char_of_nat)
  have run: "load_mac_list ascii_upper ?fs ''macs.txt'' =
      Inr (Some {''AA:BB:CC:DD:EE:FF'', ''AA:BB:CC:DD:EE:01''}, [Loaded 2])"
    by (simp add: load_mac_list_def s1 s2 s3 u1 u3)
  have nb: "\<not> blank ''  aa:bb:cc:dd:ee:ff \<newline>''"
    using s1 strip_eq_Nil_iff [of "''  aa:bb:cc:dd:ee:ff \<newline>''"] by simp
  have p1: "?fs ''macs.txt'' = Inr ?f" by simp
  have p2: "?fs ''none.txt'' = Inl FileNotFoundError" by simp
  note read = C3_load_allow_list
      [where fs = ?fs and path = "''macs.txt''" and f = ?f and upper = ascii_upper
         and l = "''  aa:bb:cc:dd:ee:ff \<newline>''"]
  note missing = C3_load_allow_list
      [where fs = ?fs and path = "''none.txt''" and lower = ascii_lower]
  note denied = C3_load_allow_list
      [where fs = "\<lambda>p. Inl IsADirectoryError" and path = "''lists''" and e = IsADirectoryError
         and upper = ascii_upper]
  have a: "{ascii_upper (strip l) | l. l \<in> set ?f \<and> \<not> blank l} =
      {''AA:BB:CC:DD:EE:FF'', ''AA:BB:CC:DD:EE:01''}"
    using read p1 run by simp
  have b: "load_uuid128_list ascii_lower ?fs ''none.txt'' =
      Inr (None, [Warning_not_found ''none.txt''])"
    using missing p2 by blast
  have c: "\<not> isspace (hd (strip ''  aa:bb:cc:dd:ee:ff \<newline>''))"
      "\<not> isspace (last (strip ''  aa:bb:cc:dd:ee:ff \<newline>''))"
    using read nb by blast+
  have d: "load_mac_list ascii_upper (\<lambda>p. Inl IsADirectoryError) ''lists'' = Inl IsADirectoryError"
    using denied by simp
  show ?thesis
    using run a b nb s1 c d by blast
qed

text \<open>
  The claim as written fails for a path that exists and cannot be opened for reading:
  \<^verbatim>\<open>open\<close> raises \<^verbatim>\<open>PermissionError\<close>, which neither loader catches, and the
  script ends at startup with that exception.
\<close>

theorem C3_counterexample:
  "load_mac_list ascii_upper (\<lambda>p. Inl PermissionError) ''macs.txt'' = Inl PermissionError \<and>
   load_uuid128_list ascii_lower (\<lambda>p. Inl PermissionError) ''uuids.txt'' = Inl PermissionError \<and>
   startup_filter (load_mac_list ascii_upper) (\<lambda>p. Inl PermissionError) (Some ''macs.txt'') =
     Inl PermissionError"
  by (simp add: load_mac_list_def load_uuid128_list_def startup_filter_def)

end
